theory Spec2Isabelle
  imports Complex_Main "HOL-Library.Sublist"
begin

chapter \<open>The model\<close>

section \<open>JavaScript strings, values and exceptions\<close>

text \<open>
  A JavaScript string is a \<^typ>\<open>string\<close>: a list of code units, here the 8-bit ones.
  A byte of the network stream is a \<^typ>\<open>char\<close> as well.
  \<^verbatim>\<open>String.prototype.trim\<close> removes white space and line terminators at both ends;
  of these the code units below 256 are TAB, LF, VT, FF, CR, SPACE and NBSP.
\<close>

type_synonym byte = char

definition is_ws :: "char \<Rightarrow> bool" where
  "is_ws c = (c \<in> set [CHR 0x09, CHR 0x0A, CHR 0x0B, CHR 0x0C, CHR 0x0D, CHR 0x20, CHR 0xA0])"

definition trim :: "string \<Rightarrow> string" where
  "trim s = rev (dropWhile is_ws (rev (dropWhile is_ws s)))"

definition startsWith :: "string \<Rightarrow> string \<Rightarrow> bool" where
  "startsWith s p = (take (length p) s = p)"

text \<open>
  \<^verbatim>\<open>s.split("\n")\<close>: the segments between line feeds; never empty, and the last
  segment is what follows the last line feed.
\<close>

fun split_nl :: "string \<Rightarrow> string list" where
  "split_nl [] = [[]]"
| "split_nl (c # cs) =
     (if c = CHR 0x0A then [] # split_nl cs
      else (case split_nl cs of [] \<Rightarrow> [[c]] | l # ls \<Rightarrow> (c # l) # ls))"

text \<open>
  The values \<^verbatim>\<open>JSON.parse\<close> returns. An object lists its own properties, each key once.
  \<^verbatim>\<open>undefined\<close> is \<^term>\<open>None\<close> of the option type over these values.
\<close>

datatype json =
    JNull
  | JBool bool
  | JNum real
  | JStr string
  | JArr "json list"
  | JObj "(string \<times> json) list"

text \<open>Truthiness, as \<^verbatim>\<open>if (v)\<close> and \<^verbatim>\<open>!v\<close> read a value.\<close>

fun truthy :: "json option \<Rightarrow> bool" where
  "truthy None = False"
| "truthy (Some JNull) = False"
| "truthy (Some (JBool b)) = b"
| "truthy (Some (JNum x)) = (if x = 0 then False else True)"
| "truthy (Some (JStr s)) = (if s = [] then False else True)"
| "truthy (Some (JArr xs)) = True"
| "truthy (Some (JObj kvs)) = True"

text \<open>
  Reading a named property (\<^verbatim>\<open>choices\<close>, \<^verbatim>\<open>delta\<close>, \<^verbatim>\<open>content\<close>, \<^verbatim>\<open>query\<close>) of a value
  that is neither \<^verbatim>\<open>null\<close> nor \<^verbatim>\<open>undefined\<close>: only an object has such a property.
  Reading index 0: the first element of an array, the first code unit of a string, the
  property \<^verbatim>\<open>"0"\<close> of an object.
\<close>

fun field :: "json \<Rightarrow> string \<Rightarrow> json option" where
  "field (JObj kvs) k = map_of kvs k"
| "field v k = None"

fun index0 :: "json \<Rightarrow> json option" where
  "index0 (JArr xs) = (case xs of [] \<Rightarrow> None | x # _ \<Rightarrow> Some x)"
| "index0 (JStr s) = (case s of [] \<Rightarrow> None | c # _ \<Rightarrow> Some (JStr [c]))"
| "index0 (JObj kvs) = map_of kvs ''0''"
| "index0 v = None"

text \<open>Optional chaining \<^verbatim>\<open>v?.p\<close>: \<^verbatim>\<open>undefined\<close> when \<^verbatim>\<open>v\<close> is \<^verbatim>\<open>null\<close> or \<^verbatim>\<open>undefined\<close>.\<close>

fun opt_chain :: "json option \<Rightarrow> (json \<Rightarrow> json option) \<Rightarrow> json option" where
  "opt_chain None get = None"
| "opt_chain (Some JNull) get = None"
| "opt_chain (Some v) get = get v"

text \<open>
  Thrown values. An exception object has a class (what \<^verbatim>\<open>instanceof\<close> tests; every class
  here is an \<^verbatim>\<open>Error\<close>), a name, a message and the \<^verbatim>\<open>code\<close> of its cause when it has
  one. Anything else that is thrown is kept as its \<^verbatim>\<open>String(err)\<close>.
\<close>

datatype error_class = ClsError | ClsTypeError | ClsDOMException

record js_error =
  err_class :: error_class
  err_name :: string
  err_message :: string
  err_cause_code :: "string option"

datatype thrown = Exn js_error | NonError string

definition new_Error :: "string \<Rightarrow> js_error" where
  "new_Error msg =
     \<lparr>err_class = ClsError, err_name = ''Error'', err_message = msg, err_cause_code = None\<rparr>"

text \<open>Reading a property of \<^verbatim>\<open>null\<close> throws a \<^verbatim>\<open>TypeError\<close>.\<close>

definition null_property_error :: "string \<Rightarrow> js_error" where
  "null_property_error p =
     \<lparr>err_class = ClsTypeError, err_name = ''TypeError'',
      err_message = ''Cannot read properties of null (reading '' @ [CHR 0x27] @ p @ [CHR 0x27] @ '')'',
      err_cause_code = None\<rparr>"

section \<open>The stream decoder (parseSSEStream)\<close>

text \<open>
  \<^verbatim>\<open>JSON.parse\<close> is the platform's: a parameter \<open>parse\<close>, \<^term>\<open>None\<close> where it throws.
  \<^verbatim>\<open>TextDecoder.decode(value, {stream: true})\<close> is the platform's too: a decoder consumes
  bytes one at a time, keeps a state between calls, and emits text; it is the parameter
  \<open>dec\<close> with its state.
\<close>

fun decode :: "('s \<Rightarrow> byte \<Rightarrow> string \<times> 's) \<Rightarrow> 's \<Rightarrow> byte list \<Rightarrow> string \<times> 's" where
  "decode dec s [] = ([], s)"
| "decode dec s (b # bs) =
     (case dec s b of (out, s') \<Rightarrow>
        (case decode dec s' bs of (rest, s'') \<Rightarrow> (out @ rest, s'')))"

text \<open>\<^verbatim>\<open>chunk.choices?.[0]?.delta?.content\<close>; the first read is not optional.\<close>

definition delta_content :: "json \<Rightarrow> js_error + json option" where
  "delta_content chunk =
     (if chunk = JNull then Inl (null_property_error ''choices'')
      else Inr (opt_chain (opt_chain (opt_chain (field chunk ''choices'') index0)
                  (\<lambda>c. field c ''delta'')) (\<lambda>d. field d ''content'')))"

definition malformed_stream_error :: js_error where
  "malformed_stream_error = new_Error
     ''Server is sending malformed response data. Check that your server supports the OpenAI streaming format.''"

definition data_payload :: "string \<Rightarrow> string" where
  "data_payload trimmed = trim (drop (length ''data:'') trimmed)"

text \<open>
  One pass of the body of \<^verbatim>\<open>for (const line of lines)\<close>, from the number of consecutive
  parse failures: go on with the new number and what was yielded, return, or throw. What is
  yielded is the value found under \<^verbatim>\<open>content\<close> when it is truthy: a string for a
  well-formed chunk, but nothing checks its type.
\<close>

datatype line_step = Next nat "json option" | Return | Throw js_error

definition process_line :: "(string \<Rightarrow> json option) \<Rightarrow> nat \<Rightarrow> string \<Rightarrow> line_step" where
  "process_line parse failures line =
     (let trimmed = trim line in
      if trimmed = [] \<or> startsWith trimmed '':'' then Next failures None
      else if startsWith trimmed ''data:'' then
        (let payload = data_payload trimmed in
         if payload = ''[DONE]'' then Return
         else (case parse payload of
                 None \<Rightarrow>
                   (if failures + 1 \<ge> 5 then Throw malformed_stream_error
                    else Next (failures + 1) None)
               | Some chunk \<Rightarrow>
                   (case delta_content chunk of
                      Inl e \<Rightarrow> Throw e
                    | Inr content \<Rightarrow> Next 0 (if truthy content then content else None))))
      else Next failures None)"

text \<open>How the generator ends: it is done, or it throws.\<close>

datatype exit = Returned | Threw js_error

text \<open>
  The \<^verbatim>\<open>for\<close> loop over the complete lines of one chunk: the tokens yielded, and either
  the exit taken inside the loop or the failure count after it.
\<close>

fun for_lines :: "(string \<Rightarrow> json option) \<Rightarrow> nat \<Rightarrow> string list \<Rightarrow> json list \<times> (exit + nat)" where
  "for_lines parse failures [] = ([], Inr failures)"
| "for_lines parse failures (line # ls) =
     (case process_line parse failures line of
        Return \<Rightarrow> ([], Inl Returned)
      | Throw e \<Rightarrow> ([], Inl (Threw e))
      | Next failures' tok \<Rightarrow>
          (case for_lines parse failures' ls of
             (toks, r) \<Rightarrow> ((case tok of None \<Rightarrow> [] | Some t \<Rightarrow> [t]) @ toks, r)))"

text \<open>
  After the source is exhausted: what is left in the buffer is decoded once, and a failure
  there is caught (the property reads are inside the \<^verbatim>\<open>try\<close>).
\<close>

definition final_buffer :: "(string \<Rightarrow> json option) \<Rightarrow> string \<Rightarrow> json list" where
  "final_buffer parse buffer =
     (let trimmed = trim buffer in
      if trimmed = [] then []
      else if startsWith trimmed ''data:'' then
        (if startsWith trimmed ''data: [DONE]'' then []
         else (case parse (data_payload trimmed) of
                 None \<Rightarrow> []
               | Some chunk \<Rightarrow>
                   (case delta_content chunk of
                      Inl e \<Rightarrow> []
                    | Inr content \<Rightarrow>
                        (if truthy content then (case content of None \<Rightarrow> [] | Some t \<Rightarrow> [t])
                         else []))))
      else [])"

text \<open>
  The \<^verbatim>\<open>while (true)\<close> loop over the chunks the reader delivers, from the decoder state,
  the buffer and the failure count. The source is a finite list of chunks: the read after
  the last one reports \<^verbatim>\<open>done\<close>.
\<close>

fun read_loop ::
  "(string \<Rightarrow> json option) \<Rightarrow> ('s \<Rightarrow> byte \<Rightarrow> string \<times> 's) \<Rightarrow> 's \<Rightarrow> string \<Rightarrow> nat \<Rightarrow>
   byte list list \<Rightarrow> json list \<times> exit" where
  "read_loop parse dec s buffer failures [] = (final_buffer parse buffer, Returned)"
| "read_loop parse dec s buffer failures (chunk # rest) =
     (case decode dec s chunk of (txt, s') \<Rightarrow>
        (let lines = split_nl (buffer @ txt) in
         (case for_lines parse failures (butlast lines) of
            (toks, Inl e) \<Rightarrow> (toks, e)
          | (toks, Inr failures') \<Rightarrow>
              (case read_loop parse dec s' (last lines) failures' rest of
                 (toks', e) \<Rightarrow> (toks @ toks', e)))))"

definition parseSSEStream ::
  "(string \<Rightarrow> json option) \<Rightarrow> ('s \<Rightarrow> byte \<Rightarrow> string \<times> 's) \<Rightarrow> 's \<Rightarrow> byte list list \<Rightarrow>
   json list \<times> exit" where
  "parseSSEStream parse dec s0 chunks = read_loop parse dec s0 [] 0 chunks"

section \<open>Messages, tools and the wire types (types.ts)\<close>

datatype role = RSystem | RUser | RAssistant | RTool

text \<open>
  A tool-call record \<^verbatim>\<open>{id, type: "function", function: {name, arguments}}\<close>; the
  arguments are a JSON text still to be parsed.
\<close>

record tool_call =
  tc_id :: string
  tc_name :: string
  tc_arguments :: string

record chat_message =
  role :: role
  content :: string
  images :: "string list option"
  tool_calls :: "tool_call list option"
  tool_call_id :: "string option"

text \<open>A tool declaration \<^verbatim>\<open>{type: "function", function: {name, description, parameters}}\<close>.\<close>

record tool =
  tool_name :: string
  tool_description :: string
  tool_parameters :: json

text \<open>
  A chat request. Its message list is of type \<open>'m\<close>: the address of an array while the
  orchestrator runs, the array's contents where a request is sent.
\<close>

record 'm chat_request =
  model :: string
  messages :: 'm
  temperature :: "real option"
  max_tokens :: "real option"
  stream :: "bool option"
  tools :: "tool list option"

record choice =
  message :: chat_message
  finish_reason :: string

record chat_response =
  resp_id :: string
  choices :: "choice list"
  usage :: "(nat \<times> nat \<times> nat) option"

datatype provider_type = Ollama | LMStudio | LlamaCpp | Custom

record provider_config =
  ptype :: provider_type
  baseUrl :: string
  defaultModel :: string
  cfg_temperature :: real
  maxTokens :: nat
  systemPrompt :: string
  streamResponses :: bool

section \<open>The platform and the network\<close>

text \<open>
  What the code reads from outside itself. \<^verbatim>\<open>fetch\<close> on the chat-completions endpoint
  answers a URL and a request body with a thrown value or a response: its status, its
  status text, what \<^verbatim>\<open>res.json()\<close> gives and its \<^verbatim>\<open>res.body\<close> (the chunks the stream
  delivers, or none). Within one turn no two requests have the same body, so a function
  of the body covers every course of the network. The search service answers a query
  with a thrown value or a status and what \<^verbatim>\<open>res.json()\<close> gives there: the list under
  \<^verbatim>\<open>web.results\<close>, if any.
\<close>

datatype content_part = TextPart string | ImageUrlPart string

datatype api_content = PartsContent "content_part list" | TextContent string

datatype api_message = Plain chat_message | Built role api_content

record api_body =
  body_model :: string
  body_messages :: "api_message list"
  body_temperature :: "real option"
  body_max_tokens :: "real option"
  body_stream :: bool
  body_tools :: "tool list option"

record http_response =
  status :: nat
  statusText :: string
  json_body :: "thrown + chat_response"
  stream_body :: "byte list list option"

record brave_web_result =
  brave_title :: string
  brave_url :: string
  brave_description :: string

record brave_response =
  brave_status :: nat
  brave_json :: "thrown + brave_web_result list option"

record platform =
  JSON_parse :: "string \<Rightarrow> json option"
  readFileSync :: "string \<Rightarrow> thrown + byte list"
  base64 :: "byte list \<Rightarrow> string"
  fetch :: "string \<Rightarrow> api_body \<Rightarrow> thrown + http_response"
  searchApiKey :: "string option"
  fetch_brave :: "json \<Rightarrow> thrown + brave_response"

text \<open>\<^verbatim>\<open>res.ok\<close>: the status is in the range 200 to 299.\<close>

definition resp_ok :: "nat \<Rightarrow> bool" where
  "resp_ok st = (200 \<le> st \<and> st \<le> 299)"

text \<open>A number in a template string: its decimal digits.\<close>

fun show_nat :: "nat \<Rightarrow> string" where
  "show_nat n =
     (if n < 10 then [char_of (48 + n)]
      else show_nat (n div 10) @ [char_of (48 + n mod 10)])"

declare show_nat.simps [simp del]

text \<open>
  The dash U+2014 of two messages is beyond the 8-bit code units: it is written as the
  three bytes of its UTF-8 form.
\<close>

definition em_dash :: string where
  "em_dash = [CHR 0xE2, CHR 0x80, CHR 0x94]"

section \<open>The transport client (api.ts)\<close>

fun PROVIDER_NAMES :: "provider_type \<Rightarrow> string" where
  "PROVIDER_NAMES Ollama = ''Ollama''"
| "PROVIDER_NAMES LMStudio = ''LM Studio''"
| "PROVIDER_NAMES LlamaCpp = ''llama.cpp''"
| "PROVIDER_NAMES Custom = ''Custom server''"

fun DEFAULT_URLS :: "provider_type \<Rightarrow> string" where
  "DEFAULT_URLS Ollama = ''http://localhost:11434''"
| "DEFAULT_URLS LMStudio = ''http://localhost:1234''"
| "DEFAULT_URLS LlamaCpp = ''http://localhost:8080''"
| "DEFAULT_URLS Custom = ''''"

text \<open>\<^verbatim>\<open>s.includes(t)\<close>.\<close>

definition includes_str :: "string \<Rightarrow> string \<Rightarrow> bool" where
  "includes_str s t = sublist t s"

definition timeout_message :: "provider_config \<Rightarrow> string" where
  "timeout_message config =
     ''Server took too long to respond. Check that '' @ PROVIDER_NAMES (ptype config) @
     '' is running at '' @ baseUrl config @ ''.''"

definition refused_message :: "provider_config \<Rightarrow> string" where
  "refused_message config =
     ''Server not running at '' @ baseUrl config @ ''. Start your '' @
     PROVIDER_NAMES (ptype config) @ '' server and try again.''"

definition unreachable_message :: "provider_config \<Rightarrow> string" where
  "unreachable_message config =
     ''Cannot connect to '' @ PROVIDER_NAMES (ptype config) @ '' at '' @ baseUrl config @
     '' '' @ em_dash @ '' is it running?''"

definition translateFetchError :: "thrown \<Rightarrow> provider_config \<Rightarrow> js_error" where
  "translateFetchError err config =
     (case err of
        NonError s \<Rightarrow> new_Error s
      | Exn e \<Rightarrow>
          if err_class e = ClsDOMException \<and> err_name e = ''TimeoutError''
          then new_Error (timeout_message config)
          else if err_name e = ''AbortError'' then new_Error (timeout_message config)
          else if err_class e = ClsTypeError \<or> includes_str (err_message e) ''fetch'' then
            (if err_cause_code e = Some ''ECONNREFUSED'' \<or>
                includes_str (err_message e) ''ECONNREFUSED''
             then new_Error (refused_message config)
             else new_Error (unreachable_message config))
          else e)"

definition has_images :: "chat_message \<Rightarrow> bool" where
  "has_images m = (case images m of None \<Rightarrow> False | Some ps \<Rightarrow> (if ps = [] then False else True))"

definition image_part :: "platform \<Rightarrow> string \<Rightarrow> content_part" where
  "image_part env imgPath =
     (case readFileSync env imgPath of
        Inr bytes \<Rightarrow> ImageUrlPart (''data:image/png;base64,'' @ base64 env bytes)
      | Inl err \<Rightarrow> TextPart ''[Image failed to load]'')"

definition message_parts :: "platform \<Rightarrow> chat_message \<Rightarrow> content_part list" where
  "message_parts env msg =
     (if content msg = [] then [] else [TextPart (content msg)]) @
     map (image_part env) (case images msg of None \<Rightarrow> [] | Some ps \<Rightarrow> ps)"

definition prepareMessagesForApi :: "platform \<Rightarrow> chat_message list \<Rightarrow> api_message list" where
  "prepareMessagesForApi env msgs =
     (if list_ex has_images msgs then
        map (\<lambda>msg. if has_images msg then
                      (let parts = message_parts env msg in
                       Built (role msg)
                         (if length parts > 0 then PartsContent parts else TextContent (content msg)))
                    else Plain msg) msgs
      else map Plain msgs)"

definition completions_url :: "provider_config \<Rightarrow> string" where
  "completions_url config = baseUrl config @ ''/v1/chat/completions''"

definition status_error :: "http_response \<Rightarrow> js_error" where
  "status_error res =
     new_Error (''Server returned '' @ show_nat (status res) @ '' '' @ statusText res)"

definition empty_body_error :: js_error where
  "empty_body_error =
     new_Error (''Response body is empty '' @ em_dash @ '' streaming not supported by server'')"

text \<open>
  The body of \<^verbatim>\<open>sendChatStream\<close>: the request's own fields, the prepared messages,
  \<^verbatim>\<open>stream: true\<close>. Every throw inside the \<^verbatim>\<open>try\<close> goes through \<^verbatim>\<open>translateFetchError\<close>.
\<close>

definition stream_request_body :: "platform \<Rightarrow> chat_message list chat_request \<Rightarrow> api_body" where
  "stream_request_body env request =
     \<lparr>body_model = model request,
      body_messages = prepareMessagesForApi env (messages request),
      body_temperature = temperature request,
      body_max_tokens = max_tokens request,
      body_stream = True,
      body_tools = tools request\<rparr>"

definition sendChatStream ::
  "provider_config \<Rightarrow> platform \<Rightarrow> chat_message list chat_request \<Rightarrow> js_error + byte list list" where
  "sendChatStream config env request =
     (case fetch env (completions_url config) (stream_request_body env request) of
        Inl err \<Rightarrow> Inl (translateFetchError err config)
      | Inr res \<Rightarrow>
          if resp_ok (status res) then
            (case stream_body res of
               None \<Rightarrow> Inl (translateFetchError (Exn empty_body_error) config)
             | Some body \<Rightarrow> Inr body)
          else Inl (translateFetchError (Exn (status_error res)) config))"

text \<open>
  The body of \<^verbatim>\<open>sendChatWithTools\<close>: as above with \<^verbatim>\<open>stream: false\<close> and the tool
  declarations of the call.
\<close>

definition tools_request_body ::
  "platform \<Rightarrow> chat_message list chat_request \<Rightarrow> tool list \<Rightarrow> api_body" where
  "tools_request_body env request decls =
     \<lparr>body_model = model request,
      body_messages = prepareMessagesForApi env (messages request),
      body_temperature = temperature request,
      body_max_tokens = max_tokens request,
      body_stream = False,
      body_tools = Some decls\<rparr>"

definition sendChatWithTools ::
  "provider_config \<Rightarrow> platform \<Rightarrow> chat_message list chat_request \<Rightarrow> tool list \<Rightarrow>
   js_error + chat_response" where
  "sendChatWithTools config env request decls =
     (case fetch env (completions_url config) (tools_request_body env request decls) of
        Inl err \<Rightarrow> Inl (translateFetchError err config)
      | Inr res \<Rightarrow>
          if resp_ok (status res) then
            (case json_body res of
               Inl err \<Rightarrow> Inl (translateFetchError err config)
             | Inr response \<Rightarrow> Inr response)
          else Inl (translateFetchError (Exn (status_error res)) config))"

section \<open>Web search (web-search.ts)\<close>

record search_result =
  title :: string
  url :: string
  snippet :: string

text \<open>
  \<^verbatim>\<open>webSearch(query)\<close> with the default \<^verbatim>\<open>maxResults = 5\<close>. The query is whatever value
  the arguments held under \<^verbatim>\<open>query\<close>; the service is a function of it.
\<close>

definition webSearch :: "platform \<Rightarrow> json \<Rightarrow> thrown + search_result list" where
  "webSearch env query =
     (if trim (case searchApiKey env of None \<Rightarrow> [] | Some k \<Rightarrow> k) = []
      then Inl (Exn (new_Error ''No Brave Search API key configured''))
      else (case fetch_brave env query of
              Inl err \<Rightarrow> Inl err
            | Inr res \<Rightarrow>
                if brave_status res = 401 \<or> brave_status res = 403
                then Inl (Exn (new_Error
                  ''Invalid Brave Search API key. Check your key in extension preferences.''))
                else if brave_status res = 429
                then Inl (Exn (new_Error
                  ''Brave Search rate limit reached. Free tier allows 2,000 queries/month.''))
                else if resp_ok (brave_status res) then
                  (case brave_json res of
                     Inl err \<Rightarrow> Inl err
                   | Inr found \<Rightarrow>
                       Inr (map (\<lambda>r. \<lparr>title = brave_title r, url = brave_url r,
                                      snippet = brave_description r\<rparr>)
                              (take 5 (case found of None \<Rightarrow> [] | Some rs \<Rightarrow> rs))))
                else Inl (Exn (new_Error
                  (''Brave Search returned '' @ show_nat (brave_status res))))))"

text \<open>\<^verbatim>\<open>lines.join("\n\n")\<close>.\<close>

fun join_blank :: "string list \<Rightarrow> string" where
  "join_blank [] = []"
| "join_blank [l] = l"
| "join_blank (l # ls) = l @ [CHR 0x0A, CHR 0x0A] @ join_blank ls"

definition formatSearchContext :: "search_result list \<Rightarrow> string" where
  "formatSearchContext results =
     (if length results = 0 then []
      else ''Web search results:'' @ [CHR 0x0A, CHR 0x0A] @
           join_blank (map (\<lambda>(i, r). show_nat (i + 1) @ ''. ['' @ title r @ '']('' @ url r @ '')'' @
                                   [CHR 0x0A] @ ''   '' @ snippet r)
                         (zip [0 ..< length results] results)))"

section \<open>Tools and the orchestrator (tools.ts)\<close>

definition BUILT_IN_TOOLS :: "tool list" where
  "BUILT_IN_TOOLS =
     [\<lparr>tool_name = ''web_search'',
       tool_description = ''Search the web for up-to-date information. Use this when the user asks about current events, prices, news, or anything that requires recent data.'',
       tool_parameters = JObj
         [(''type'', JStr ''object''),
          (''properties'', JObj [(''query'', JObj [(''type'', JStr ''string''),
                                                 (''description'', JStr ''The search query'')])]),
          (''required'', JArr [JStr ''query''])]\<rparr>]"

definition quoted :: "string \<Rightarrow> string" where
  "quoted s = [CHR 0x22] @ s @ [CHR 0x22]"

text \<open>
  \<^verbatim>\<open>executeTool\<close>: the result string, or what it throws. Only \<^verbatim>\<open>JSON.parse\<close> and the
  search are inside a \<^verbatim>\<open>try\<close>; the read of \<^verbatim>\<open>args.query\<close> is not.
\<close>

definition executeTool :: "platform \<Rightarrow> tool_call \<Rightarrow> js_error + string" where
  "executeTool env toolCall =
     (case JSON_parse env (tc_arguments toolCall) of
        None \<Rightarrow> Inr (''Error: Invalid JSON arguments for tool '' @ quoted (tc_name toolCall))
      | Some args \<Rightarrow>
          if tc_name toolCall = ''web_search'' then
            (if args = JNull then Inl (null_property_error ''query'')
             else (case field args ''query'' of
                     None \<Rightarrow> Inr ''Error: Missing query parameter''
                   | Some query \<Rightarrow>
                       if truthy (Some query) then
                         (case webSearch env query of
                            Inr results \<Rightarrow> Inr (formatSearchContext results)
                          | Inl err \<Rightarrow>
                              Inr (''Search error: '' @
                                   (case err of Exn e \<Rightarrow> err_message e
                                    | NonError s \<Rightarrow> ''Unknown error'')))
                       else Inr ''Error: Missing query parameter''))
          else Inr (''Error: Unknown tool '' @ quoted (tc_name toolCall)))"

text \<open>
  The store of message arrays: \<^verbatim>\<open>request.messages\<close>, the copy \<^verbatim>\<open>messages\<close> and
  \<^verbatim>\<open>toolMessages\<close> are three array objects. An array literal or a spread allocates a
  new array; \<^verbatim>\<open>push\<close> changes the array it is called on.
\<close>

type_synonym addr = nat

record store =
  cells :: "addr \<Rightarrow> chat_message list"
  next_free :: addr

definition deref :: "store \<Rightarrow> addr \<Rightarrow> chat_message list" where
  "deref h a = cells h a"

definition alloc :: "chat_message list \<Rightarrow> store \<Rightarrow> addr \<times> store" where
  "alloc xs h = (next_free h, \<lparr>cells = (cells h)(next_free h := xs), next_free = Suc (next_free h)\<rparr>)"

definition push :: "addr \<Rightarrow> chat_message \<Rightarrow> store \<Rightarrow> store" where
  "push a x h = h\<lparr>cells := (cells h)(a := cells h a @ [x])\<rparr>"

text \<open>
  The calls made on the transport client, in order, each with the request it was given
  (the message array read at that moment).
\<close>

datatype transport_call =
    WithToolsCall "chat_message list chat_request" "tool list"
  | StreamCall "chat_message list chat_request"

record orch =
  heap :: store
  calls :: "transport_call list"

text \<open>\<^verbatim>\<open>{ ...request, messages }\<close>: the request's own fields, with this message list.\<close>

definition with_messages :: "'a chat_request \<Rightarrow> 'b \<Rightarrow> 'b chat_request" where
  "with_messages request msgs =
     \<lparr>model = model request, messages = msgs, temperature = temperature request,
      max_tokens = max_tokens request, stream = stream request, tools = tools request\<rparr>"

definition maxRounds :: nat where
  "maxRounds = 3"

definition has_tool_calls :: "chat_message \<Rightarrow> bool" where
  "has_tool_calls m =
     (case tool_calls m of None \<Rightarrow> False | Some tcs \<Rightarrow> (if length tcs = 0 then False else True))"

text \<open>
  \<^verbatim>\<open>choice.finish_reason === "tool_calls" && choice.message.tool_calls?.length\<close>.
\<close>

definition wants_tools :: "choice \<Rightarrow> bool" where
  "wants_tools choice = (finish_reason choice = ''tool_calls'' \<and> has_tool_calls (message choice))"

definition requested_calls :: "choice \<Rightarrow> tool_call list" where
  "requested_calls choice = (case tool_calls (message choice) of None \<Rightarrow> [] | Some tcs \<Rightarrow> tcs)"

definition assistantMsg :: "chat_message \<Rightarrow> chat_message" where
  "assistantMsg m =
     \<lparr>role = RAssistant, content = (if content m = [] then [] else content m),
      images = None, tool_calls = tool_calls m, tool_call_id = None\<rparr>"

definition toolMsg :: "string \<Rightarrow> tool_call \<Rightarrow> chat_message" where
  "toolMsg result tc =
     \<lparr>role = RTool, content = result, images = None, tool_calls = None,
      tool_call_id = Some (tc_id tc)\<rparr>"

text \<open>
  \<^verbatim>\<open>for (const tc of choice.message.tool_calls)\<close>: each result is pushed on both arrays;
  what \<^verbatim>\<open>executeTool\<close> throws leaves the loop and the function.
\<close>

fun execute_tool_calls ::
  "platform \<Rightarrow> addr \<Rightarrow> addr \<Rightarrow> tool_call list \<Rightarrow> store \<Rightarrow> js_error option \<times> store" where
  "execute_tool_calls env m t [] h = (None, h)"
| "execute_tool_calls env m t (tc # tcs) h =
     (case executeTool env tc of
        Inl e \<Rightarrow> (Some e, h)
      | Inr result \<Rightarrow>
          execute_tool_calls env m t tcs (push t (toolMsg result tc) (push m (toolMsg result tc) h)))"

text \<open>
  \<^verbatim>\<open>for (let round = 0; round < maxRounds; round++)\<close>, from the round and the state: the
  state when the loop is left, and what was thrown if it was left by a throw.
\<close>

function decision_rounds ::
  "provider_config \<Rightarrow> platform \<Rightarrow> addr chat_request \<Rightarrow> tool list \<Rightarrow> addr \<Rightarrow> addr \<Rightarrow> nat \<Rightarrow> orch \<Rightarrow>
   js_error option \<times> orch" where
  "decision_rounds config env request decls m t rnd st =
     (if rnd < maxRounds then
        (let sent = with_messages request (deref (heap st) m);
             st1 = st\<lparr>calls := calls st @ [WithToolsCall sent decls]\<rparr>
         in case sendChatWithTools config env sent decls of
              Inl e \<Rightarrow> (Some e, st1)
            | Inr response \<Rightarrow>
                (case choices response of
                   [] \<Rightarrow> (Some (new_Error ''No response from model''), st1)
                 | choice # others \<Rightarrow>
                     if wants_tools choice then
                       (let a = assistantMsg (message choice);
                            h1 = push t a (push m a (heap st1))
                        in case execute_tool_calls env m t (requested_calls choice) h1 of
                             (Some e, h2) \<Rightarrow> (Some e, st1\<lparr>heap := h2\<rparr>)
                           | (None, h2) \<Rightarrow>
                               decision_rounds config env request decls m t (rnd + 1)
                                 (st1\<lparr>heap := h2\<rparr>))
                     else (None, st1)))
      else (None, st))"
  by pat_completeness auto
termination
  by (relation "measure (\<lambda>(config, env, request, decls, m, t, rnd, st). maxRounds - rnd)") auto

declare decision_rounds.simps [simp del]

text \<open>
  \<^verbatim>\<open>runWithTools\<close>, from the store the caller's array lives in. First the two
  arrays are allocated and the loop runs: its outcome, with the addresses of \<^verbatim>\<open>messages\<close>
  and \<^verbatim>\<open>toolMessages\<close>. Then, unless the loop threw, the final streaming call: the whole
  function returns the stream and the array of synthesized messages, or throws.
\<close>

definition decision_loop ::
  "provider_config \<Rightarrow> platform \<Rightarrow> addr chat_request \<Rightarrow> tool list \<Rightarrow> store \<Rightarrow>
   (js_error option \<times> orch) \<times> addr \<times> addr" where
  "decision_loop config env request decls h0 =
     (case alloc (deref h0 (messages request)) h0 of (m, h1) \<Rightarrow>
        (case alloc [] h1 of (t, h2) \<Rightarrow>
           (decision_rounds config env request decls m t 0 \<lparr>heap = h2, calls = []\<rparr>, m, t)))"

definition runWithTools ::
  "provider_config \<Rightarrow> platform \<Rightarrow> addr chat_request \<Rightarrow> tool list \<Rightarrow> store \<Rightarrow>
   (js_error + byte list list \<times> addr) \<times> orch" where
  "runWithTools config env request decls h0 =
     (case decision_loop config env request decls h0 of
        ((Some e, st), m, t) \<Rightarrow> (Inl e, st)
      | ((None, st), m, t) \<Rightarrow>
          (let sent = with_messages request (deref (heap st) m);
               st' = st\<lparr>calls := calls st @ [StreamCall sent]\<rparr>
           in case sendChatStream config env sent of
                Inl e \<Rightarrow> (Inl e, st')
              | Inr body \<Rightarrow> (Inr (body, t), st')))"

text \<open>The tool declarations a call's request body carries.\<close>

fun tools_carried :: "platform \<Rightarrow> transport_call \<Rightarrow> tool list option" where
  "tools_carried env (WithToolsCall r decls) = body_tools (tools_request_body env r decls)"
| "tools_carried env (StreamCall r) = body_tools (stream_request_body env r)"

fun is_decision :: "transport_call \<Rightarrow> bool" where
  "is_decision (WithToolsCall r decls) = True"
| "is_decision (StreamCall r) = False"

text \<open>The state in which the loop starts: the two arrays allocated, no call made.\<close>

definition initial_state :: "addr chat_request \<Rightarrow> store \<Rightarrow> orch" where
  "initial_state request h0 =
     \<lparr>heap = \<lparr>cells = ((cells h0)(next_free h0 := deref h0 (messages request)))
                        (Suc (next_free h0) := []),
              next_free = Suc (Suc (next_free h0))\<rparr>,
      calls = []\<rparr>"

text \<open>
  What the loop over the tool calls produces, apart from the store: the messages it
  pushes, in order, and the throw that ended it, if any.
\<close>

fun tool_results :: "platform \<Rightarrow> tool_call list \<Rightarrow> chat_message list \<times> js_error option" where
  "tool_results env [] = ([], None)"
| "tool_results env (tc # tcs) =
     (case executeTool env tc of
        Inl e \<Rightarrow> ([], Some e)
      | Inr result \<Rightarrow>
          (case tool_results env tcs of (ms, e) \<Rightarrow> (toolMsg result tc # ms, e)))"

section \<open>Inputs for the decoder's scenarios\<close>

text \<open>
  The UTF-8 decoder on ASCII input: each byte below 0x80 is emitted as the code unit of
  the same value, and no state is kept. It stands for \<^verbatim>\<open>TextDecoder\<close> on such input only
  (a byte from 0x80 on is part of a longer sequence or is replaced, which this function
  does not do). It is applied to the literal ASCII frames of the scenarios; the only bytes
  left open with it are those that follow a sentinel line, which no processed line
  contains. What is said of the lines of an arbitrary stream is said for an arbitrary
  decoder \<open>dec\<close> and the text it gives.
\<close>

definition ascii_decode :: "unit \<Rightarrow> byte \<Rightarrow> string \<times> unit" where
  "ascii_decode s b = ([b], s)"

text \<open>
  The frame payload that carries the text \<open>t\<close> as its first choice's delta content, and
  the value \<^verbatim>\<open>JSON.parse\<close> returns for it.
\<close>

definition payload_of :: "string \<Rightarrow> string" where
  \<open>payload_of t = ''{"choices":[{"delta":{"content":"'' @ t @ ''"}}]}''\<close>

definition chunk_of :: "string \<Rightarrow> json" where
  "chunk_of t = JObj [(''choices'', JArr [JObj [(''delta'', JObj [(''content'', JStr t)])]])]"

text \<open>
  The lines that reach the \<^verbatim>\<open>catch\<close> of the loop: a data line, not the sentinel, whose
  payload \<^verbatim>\<open>JSON.parse\<close> rejects.
\<close>

definition undecodable :: "(string \<Rightarrow> json option) \<Rightarrow> string \<Rightarrow> bool" where
  "undecodable parse line =
     (startsWith (trim line) ''data:'' \<and> data_payload (trim line) \<noteq> ''[DONE]'' \<and>
      parse (data_payload (trim line)) = None)"

section \<open>Inputs for the transport and orchestrator scenarios\<close>

text \<open>
  A configuration for Ollama at its default address, a request as the chat command
  builds it (no \<^verbatim>\<open>tools\<close> field), and a platform where nothing is reachable: one image
  file exists, no search key is set, every \<^verbatim>\<open>fetch\<close> is refused. The scenarios replace
  the fields they need.
\<close>

definition cfg0 :: provider_config where
  "cfg0 = \<lparr>ptype = Ollama, baseUrl = DEFAULT_URLS Ollama, defaultModel = ''llama3'',
            cfg_temperature = 0.7, maxTokens = 2048, systemPrompt = [], streamResponses = True\<rparr>"

definition text_msg :: "role \<Rightarrow> string \<Rightarrow> chat_message" where
  "text_msg r s = \<lparr>role = r, content = s, images = None, tool_calls = None, tool_call_id = None\<rparr>"

definition req_of :: "'m \<Rightarrow> 'm chat_request" where
  "req_of ms = \<lparr>model = ''llama3'', messages = ms, temperature = Some 0.7, max_tokens = Some 2048,
                stream = None, tools = None\<rparr>"

definition fetch_failed :: js_error where
  "fetch_failed = \<lparr>err_class = ClsTypeError, err_name = ''TypeError'', err_message = ''fetch failed'',
                    err_cause_code = Some ''ECONNREFUSED''\<rparr>"

definition env0 :: platform where
  "env0 = \<lparr>JSON_parse = map_of [(''null'', JNull), (''{}'', JObj [])],
            readFileSync = (\<lambda>p. if p = ''/tmp/a.png'' then Inr ''PNG''
                                else Inl (Exn (new_Error ''ENOENT: no such file or directory''))),
            base64 = (\<lambda>b. ''UE5H''),
            fetch = (\<lambda>u b. Inl (Exn fetch_failed)),
            searchApiKey = None,
            fetch_brave = (\<lambda>q. Inl (Exn fetch_failed))\<rparr>"

definition reply :: "nat \<Rightarrow> string \<Rightarrow> http_response" where
  "reply st txt = \<lparr>status = st, statusText = txt, json_body = Inl (NonError ''SyntaxError''),
                    stream_body = None\<rparr>"

definition image_msg :: "string \<Rightarrow> string list \<Rightarrow> chat_message" where
  "image_msg s ps = \<lparr>role = RUser, content = s, images = Some ps, tool_calls = None, tool_call_id = None\<rparr>"

text \<open>
  Scripted servers for the orchestrator: every decision call is answered with status 200
  and the response the script gives for the request body; the streaming call with the
  frames of "Hi" and the sentinel. The model's tool call is a web search, which fails
  here for want of a search key. The caller's array is at address 0 of the store.
\<close>

definition query_args :: string where
  \<open>query_args = ''{"query":"weather"}''\<close>

definition asking :: "string \<Rightarrow> string \<Rightarrow> choice" where
  "asking reason args =
     \<lparr>message = \<lparr>role = RAssistant, content = [], images = None,
                  tool_calls = Some [\<lparr>tc_id = ''call_1'', tc_name = ''web_search'',
                                      tc_arguments = args\<rparr>],
                  tool_call_id = None\<rparr>,
      finish_reason = reason\<rparr>"

definition tool_request :: "string \<Rightarrow> string \<Rightarrow> chat_response" where
  "tool_request reason args =
     \<lparr>resp_id = ''chatcmpl-1'', choices = [asking reason args], usage = None\<rparr>"

definition answering :: "string \<Rightarrow> choice" where
  "answering reason = \<lparr>message = text_msg RAssistant ''Done.'', finish_reason = reason\<rparr>"

definition final_answer :: "string \<Rightarrow> chat_response" where
  "final_answer reason =
     \<lparr>resp_id = ''chatcmpl-2'', choices = [answering reason], usage = None\<rparr>"

definition served :: "(api_body \<Rightarrow> chat_response) \<Rightarrow> string \<Rightarrow> api_body \<Rightarrow> thrown + http_response" where
  "served script u b =
     Inr \<lparr>status = 200, statusText = ''OK'', json_body = Inr (script b),
          stream_body = Some [''data: '' @ payload_of ''Hi'' @ [CHR 0x0A, CHR 0x0A],
                              ''data: [DONE]'' @ [CHR 0x0A, CHR 0x0A]]\<rparr>"

definition env_script :: "(api_body \<Rightarrow> chat_response) \<Rightarrow> platform" where
  "env_script script =
     env0\<lparr>JSON_parse := map_of [(query_args, JObj [(''query'', JStr ''weather'')]), (''null'', JNull)],
          fetch := served script\<rparr>"

definition hello :: chat_message where
  "hello = text_msg RUser ''hello''"

definition store0 :: store where
  "store0 = \<lparr>cells = (\<lambda>a. [])(0 := [hello]), next_free = 1\<rparr>"

definition request0 :: "addr chat_request" where
  "request0 = req_of 0"

definition search_failed :: chat_message where
  "search_failed =
     \<lparr>role = RTool, content = ''Search error: No Brave Search API key configured'', images = None,
      tool_calls = None, tool_call_id = Some ''call_1''\<rparr>"

definition asked :: chat_message where
  "asked =
     \<lparr>role = RAssistant, content = [], images = None,
      tool_calls = Some [\<lparr>tc_id = ''call_1'', tc_name = ''web_search'', tc_arguments = query_args\<rparr>],
      tool_call_id = None\<rparr>"

text \<open>
  Three scripts: tools at every round; tools while the list has fewer than five messages
  (two rounds from one message), then an answer; an answer at once.
\<close>

definition always_tools :: "api_body \<Rightarrow> chat_response" where
  "always_tools b = tool_request ''tool_calls'' query_args"

definition tools_twice :: "api_body \<Rightarrow> chat_response" where
  "tools_twice b =
     (if length (body_messages b) < 5 then tool_request ''tool_calls'' query_args
      else final_answer ''stop'')"

definition answer_at_once :: "string \<Rightarrow> api_body \<Rightarrow> chat_response" where
  "answer_at_once reason b = final_answer reason"

text \<open>
  Two more scripts: a tool call whose arguments are the JSON text \<^verbatim>\<open>null\<close>; and tools
  once, then tool-call records under the finish reason "stop".
\<close>

definition null_args :: "api_body \<Rightarrow> chat_response" where
  "null_args b = tool_request ''tool_calls'' ''null''"

definition tools_then_stop :: "api_body \<Rightarrow> chat_response" where
  "tools_then_stop b =
     (if length (body_messages b) < 3 then tool_request ''tool_calls'' query_args
      else tool_request ''stop'' query_args)"


definition null_then_tools :: "api_body \<Rightarrow> chat_response" where
  "null_then_tools b =
     (if length (body_messages b) < 3 then tool_request ''tool_calls'' ''null''
      else if length (body_messages b) < 5 then tool_request ''tool_calls'' query_args
      else final_answer ''stop'')"

chapter \<open>Verified properties\<close>

section \<open>Line splitting and chunk boundaries\<close>

lemma split_nl_not_Nil: "split_nl s \<noteq> []"
  by (induction s) (auto split: list.splits)

lemma decode_append:
  "decode dec s (a @ b) =
     (case decode dec s a of (x, s') \<Rightarrow> (case decode dec s' b of (y, s'') \<Rightarrow> (x @ y, s'')))"
  by (induction a arbitrary: s) (auto split: prod.splits)

lemma split_nl_append:
  "split_nl (a @ b) = butlast (split_nl a) @ split_nl (last (split_nl a) @ b)"
proof (induction a)
  case Nil
  then show ?case by simp
next
  case (Cons c cs)
  then show ?case
    using split_nl_not_Nil [of cs] split_nl_not_Nil [of "cs @ b"]
    by (auto split: list.splits)
qed

lemma butlast_split_nl_append:
  "butlast (split_nl (a @ b)) = butlast (split_nl a) @ butlast (split_nl (last (split_nl a) @ b))"
  by (subst split_nl_append) (simp add: butlast_append split_nl_not_Nil)

lemma last_split_nl_append:
  "last (split_nl (a @ b)) = last (split_nl (last (split_nl a) @ b))"
  by (subst split_nl_append) (simp add: split_nl_not_Nil)



lemma for_lines_append:
  "for_lines parse c (xs @ ys) =
     (case for_lines parse c xs of
        (toks, Inl e) \<Rightarrow> (toks, Inl e)
      | (toks, Inr c') \<Rightarrow> (case for_lines parse c' ys of (toks', r) \<Rightarrow> (toks @ toks', r)))"
proof (induction xs arbitrary: c)
  case Nil
  then show ?case by (simp split: prod.splits)
next
  case (Cons x xs)
  show ?case
  proof (cases "process_line parse c x")
    case (Next c' tok)
    then show ?thesis
      by (simp add: Cons.IH split: prod.splits sum.splits)
  next
    case Return
    then show ?thesis by simp
  next
    case (Throw e)
    then show ?thesis by simp
  qed
qed


lemma read_loop_merge:
  "read_loop parse dec s buffer c (a # b # rest) = read_loop parse dec s buffer c ((a @ b) # rest)"
proof -
  obtain x s1 where da: "decode dec s a = (x, s1)" by (cases "decode dec s a")
  obtain y s2 where db: "decode dec s1 b = (y, s2)" by (cases "decode dec s1 b")
  have dab: "decode dec s (a @ b) = (x @ y, s2)"
    by (simp add: decode_append da db)
  define l1 where "l1 = split_nl (buffer @ x)"
  define l2 where "l2 = split_nl (last l1 @ y)"
  have bl: "butlast (split_nl (buffer @ x @ y)) = butlast l1 @ butlast l2"
    using butlast_split_nl_append [of "buffer @ x" y] by (simp add: l1_def l2_def)
  have la: "last (split_nl (buffer @ x @ y)) = last l2"
    using last_split_nl_append [of "buffer @ x" y] by (simp add: l1_def l2_def)
  obtain t1 r1 where f1: "for_lines parse c (butlast l1) = (t1, r1)"
    by (cases "for_lines parse c (butlast l1)")
  show ?thesis
  proof (cases r1)
    case (Inl e)
    have "for_lines parse c (butlast l1 @ butlast l2) = (t1, Inl e)"
      by (simp add: for_lines_append f1 Inl)
    then show ?thesis
      by (simp add: da dab bl f1 Inl l1_def [symmetric])
  next
    case (Inr c1)
    obtain t2 r2 where f2: "for_lines parse c1 (butlast l2) = (t2, r2)"
      by (cases "for_lines parse c1 (butlast l2)")
    have f12: "for_lines parse c (butlast l1 @ butlast l2) = (t1 @ t2, r2)"
      by (simp add: for_lines_append f1 Inr f2)
    show ?thesis
      by (simp add: da db dab bl la f1 Inr f2 f12 l1_def [symmetric] l2_def [symmetric]
          split: sum.splits prod.splits)
  qed
qed

lemma read_loop_concat:
  "read_loop parse dec s buffer c (a # rest) = read_loop parse dec s buffer c [concat (a # rest)]"
proof (induction rest arbitrary: a)
  case Nil
  then show ?case by simp
next
  case (Cons b rest)
  have "read_loop parse dec s buffer c (a # b # rest) = read_loop parse dec s buffer c ((a @ b) # rest)"
    by (rule read_loop_merge)
  also have "\<dots> = read_loop parse dec s buffer c [concat ((a @ b) # rest)]"
    by (rule Cons.IH)
  finally show ?case by simp
qed

text \<open>
  C1. Chunk-boundary invariance: however the bytes of a streaming payload are cut into
  chunks (at any byte offsets, empty chunks and no chunk at all included), the decoder
  yields the same tokens in the same order, and ends the same way, as on the whole
  payload delivered as one chunk. It holds for every JSON parser and every byte-wise
  text decoder.
\<close>

theorem chunk_boundary_invariance:
  "parseSSEStream parse dec s0 chunks = parseSSEStream parse dec s0 [concat chunks]"
proof (cases chunks)
  case Nil
  then show ?thesis by (simp add: parseSSEStream_def)
next
  case (Cons a rest)
  then show ?thesis unfolding parseSSEStream_def by (simp only: read_loop_concat [of _ _ _ _ _ a rest])
qed

lemmas decoder_eval =
  parseSSEStream_def process_line_def final_buffer_def trim_def is_ws_def startsWith_def
  data_payload_def delta_content_def Let_def ascii_decode_def payload_of_def chunk_of_def


text \<open>
  The split-boundary scenario: the frames of A and B and the sentinel, cut at the byte
  offsets 1, 5 and 40, decode to A then B.
\<close>

theorem chunk_boundary_invariance_witness:
  \<open>parseSSEStream (map_of [(payload_of ''A'', chunk_of ''A''), (payload_of ''B'', chunk_of ''B'')])
     ascii_decode ()
     [''d'', ''ata:'', '' {"choices":[{"delta":{"content":"A'',
      ''"}}]}'' @ [CHR 0x0A] @ ''data: '' @ payload_of ''B'' @ [CHR 0x0A] @ ''data: [DONE]'' @ [CHR 0x0A]]
   = ([JStr ''A'', JStr ''B''], Returned)\<close>
  using chunk_boundary_invariance
    [of "map_of [(payload_of ''A'', chunk_of ''A''), (payload_of ''B'', chunk_of ''B'')]"
        ascii_decode "()"
        \<open>[''d'', ''ata:'', '' {"choices":[{"delta":{"content":"A'',
          ''"}}]}'' @ [CHR 0x0A] @ ''data: '' @ payload_of ''B'' @ [CHR 0x0A] @ ''data: [DONE]'' @ [CHR 0x0A]]\<close>]
  by (simp add: decoder_eval)

section \<open>Malformed frames and the sentinel\<close>

lemma decode_ascii: "decode ascii_decode u bs = (bs, u)"
  by (induction bs) (auto simp: ascii_decode_def)

lemma data_line_not_skipped:
  "startsWith t ''data:'' \<Longrightarrow> t \<noteq> [] \<and> \<not> startsWith t '':''"
  by (cases t) (auto simp: startsWith_def)

lemma process_line_undecodable:
  "undecodable parse line \<Longrightarrow>
   process_line parse c line =
     (if c + 1 < 5 then Next (c + 1) None else Throw malformed_stream_error)"
  using data_line_not_skipped [of "trim line"]
  by (auto simp: undecodable_def process_line_def Let_def)

lemma process_line_decoded:
  "startsWith (trim line) ''data:'' \<Longrightarrow> data_payload (trim line) \<noteq> ''[DONE]'' \<Longrightarrow>
   parse (data_payload (trim line)) = Some chunk \<Longrightarrow> delta_content chunk = Inr v \<Longrightarrow>
   process_line parse c line = Next 0 (if truthy v then v else None)"
  using data_line_not_skipped [of "trim line"]
  by (auto simp: process_line_def Let_def)

lemma process_line_sentinel:
  "startsWith (trim line) ''data:'' \<Longrightarrow> data_payload (trim line) = ''[DONE]'' \<Longrightarrow>
   process_line parse c line = Return"
  using data_line_not_skipped [of "trim line"]
  by (auto simp: process_line_def Let_def)

lemma process_line_ignored:
  "\<not> startsWith (trim line) ''data:'' \<Longrightarrow> process_line parse c line = Next c None"
  by (simp add: process_line_def Let_def)

lemma for_lines_undecodable:
  "\<forall>l \<in> set ls. \<not> startsWith (trim l) ''data:'' \<or> undecodable parse l \<Longrightarrow> c < 5 \<Longrightarrow>
   for_lines parse c ls =
     (if c + length (filter (undecodable parse) ls) < 5
      then ([], Inr (c + length (filter (undecodable parse) ls)))
      else ([], Inl (Threw malformed_stream_error)))"
proof (induction ls arbitrary: c)
  case Nil
  then show ?case by simp
next
  case (Cons l ls)
  show ?case
  proof (cases "undecodable parse l")
    case False
    with Cons.prems have ig: "\<not> startsWith (trim l) ''data:''" by simp
    have "for_lines parse c ls =
      (if c + length (filter (undecodable parse) ls) < 5
       then ([], Inr (c + length (filter (undecodable parse) ls)))
       else ([], Inl (Threw malformed_stream_error)))"
      using Cons.prems by (intro Cons.IH) auto
    then show ?thesis using False by (simp add: process_line_ignored [OF ig])
  next
    case True
    have step: "process_line parse c l =
        (if c + 1 < 5 then Next (c + 1) None else Throw malformed_stream_error)"
      using True by (rule process_line_undecodable)
    show ?thesis
    proof (cases "c + 1 < 5")
      case lt: True
      have "for_lines parse (c + 1) ls =
        (if (c + 1) + length (filter (undecodable parse) ls) < 5
         then ([], Inr ((c + 1) + length (filter (undecodable parse) ls)))
         else ([], Inl (Threw malformed_stream_error)))"
        using Cons.prems lt by (intro Cons.IH) auto
      then show ?thesis using step lt True by simp
    next
      case False
      then show ?thesis using step True by simp
    qed
  qed
qed

lemma split_nl_no_newline: "CHR 0x0A \<notin> set l \<Longrightarrow> split_nl l = [l]"
  by (induction l) auto

lemma split_nl_line:
  "CHR 0x0A \<notin> set l \<Longrightarrow> split_nl (l @ CHR 0x0A # t) = l # split_nl t"
  by (induction l) auto

lemma split_nl_lines:
  "\<forall>l \<in> set ls. CHR 0x0A \<notin> set l \<Longrightarrow>
   split_nl (concat (map (\<lambda>l. l @ [CHR 0x0A]) ls) @ t) = ls @ split_nl t"
  by (induction ls) (auto simp: split_nl_line)

lemma parseSSEStream_one_chunk:
  "decode dec s0 (concat chunks) = (txt, s') \<Longrightarrow>
   parseSSEStream parse dec s0 chunks =
     (case for_lines parse 0 (butlast (split_nl txt)) of
        (toks, Inl e) \<Rightarrow> (toks, e)
      | (toks, Inr c) \<Rightarrow> (toks @ final_buffer parse (last (split_nl txt)), Returned))"
proof (cases chunks)
  case Nil
  assume "decode dec s0 (concat chunks) = (txt, s')"
  with Nil have "txt = []" by simp
  with Nil show ?thesis by (simp add: parseSSEStream_def)
next
  case (Cons a rest)
  assume d: "decode dec s0 (concat chunks) = (txt, s')"
  have "parseSSEStream parse dec s0 chunks = read_loop parse dec s0 [] 0 [concat chunks]"
    unfolding parseSSEStream_def Cons by (rule read_loop_concat)
  then show ?thesis using d by (simp split: prod.splits sum.splits)
qed


lemma sentinel_in_stream:
  assumes d: "decode dec s0 (concat chunks) = (concat (map (\<lambda>l. l @ [CHR 0x0A]) (pre @ [line])) @ extra, s')"
    and nl: "\<forall>l \<in> set (pre @ [line]). CHR 0x0A \<notin> set l"
    and st: "startsWith (trim line) ''data:''" "data_payload (trim line) = ''[DONE]''"
  shows "parseSSEStream parse dec s0 chunks =
     (case for_lines parse 0 pre of (toks, Inl e) \<Rightarrow> (toks, e) | (toks, Inr c) \<Rightarrow> (toks, Returned))"
proof -
  have sp: "split_nl (concat (map (\<lambda>l. l @ [CHR 0x0A]) (pre @ [line])) @ extra) = (pre @ [line]) @ split_nl extra"
    using nl by (rule split_nl_lines)
  have bl: "butlast ((pre @ [line]) @ split_nl extra) = pre @ line # butlast (split_nl extra)"
    by (simp add: butlast_append split_nl_not_Nil)
  have fl: "for_lines parse c (line # butlast (split_nl extra)) = ([], Inl Returned)" for c
    by (simp add: process_line_sentinel [OF st])
  have "for_lines parse 0 (pre @ line # butlast (split_nl extra)) =
     (case for_lines parse 0 pre of (toks, Inl e) \<Rightarrow> (toks, Inl e) | (toks, Inr c) \<Rightarrow> (toks, Inl Returned))"
    by (simp add: for_lines_append fl del: for_lines.simps split: prod.splits sum.splits)
  then show ?thesis
    unfolding parseSSEStream_one_chunk [OF d] sp bl
    by (simp del: for_lines.simps split: prod.splits sum.splits)
qed

lemma for_lines_decoded:
  "startsWith (trim line) ''data:'' \<Longrightarrow> data_payload (trim line) \<noteq> ''[DONE]'' \<Longrightarrow>
   parse (data_payload (trim line)) = Some chunk \<Longrightarrow> delta_content chunk = Inr v \<Longrightarrow>
   for_lines parse c (line # ls) =
     (case for_lines parse 0 ls of
        (toks, r) \<Rightarrow> ((case (if truthy v then v else None) of None \<Rightarrow> [] | Some t \<Rightarrow> [t]) @ toks, r))"
  by (simp add: process_line_decoded)

text \<open>
  Frames that \<^verbatim>\<open>JSON.parse\<close> rejects. A data line whose payload the parser rejects is
  skipped: nothing is yielded and the count of consecutive failures goes up by one, without
  an error while the new count is below 5; the failure that brings the count to 5 throws
  the malformed-stream error. A payload that parses to a value other than \<^verbatim>\<open>null\<close> resets
  the count to 0, and the lines after it are processed from the count 0. Lines that are not
  data lines (blank lines, comments) leave the count as it is. So over lines that are each
  rejected or not a data line, the loop ends with no error and the number of rejected lines
  as count while that number stays below 5, and throws when it reaches 5; and a stream
  whose decoded text is made of such lines, each ended by a newline, however it is cut into
  chunks, returns normally with no token when fewer than 5 lines are rejected and throws
  otherwise.
\<close>

theorem malformed_frame_threshold:
  "(undecodable parse line \<longrightarrow>
      process_line parse c line =
        (if c + 1 < 5 then Next (c + 1) None else Throw malformed_stream_error)) \<and>
   (startsWith (trim line') ''data:'' \<and> data_payload (trim line') \<noteq> ''[DONE]'' \<and>
    parse (data_payload (trim line')) = Some chunk \<and> delta_content chunk = Inr v \<longrightarrow>
      process_line parse c line' = Next 0 (if truthy v then v else None) \<and>
      for_lines parse c (line' # ls') =
        (case for_lines parse 0 ls' of
           (toks, r) \<Rightarrow> ((case (if truthy v then v else None) of None \<Rightarrow> [] | Some t \<Rightarrow> [t]) @ toks, r))) \<and>
   ((\<forall>l \<in> set ls. \<not> startsWith (trim l) ''data:'' \<or> undecodable parse l) \<and> c < 5 \<longrightarrow>
      for_lines parse c ls =
        (if c + length (filter (undecodable parse) ls) < 5
         then ([], Inr (c + length (filter (undecodable parse) ls)))
         else ([], Inl (Threw malformed_stream_error)))) \<and>
   ((\<forall>l \<in> set ls. (\<not> startsWith (trim l) ''data:'' \<or> undecodable parse l) \<and> CHR 0x0A \<notin> set l) \<and>
    decode dec ini (concat chunks) = (concat (map (\<lambda>l. l @ [CHR 0x0A]) ls), s') \<longrightarrow>
      parseSSEStream parse dec ini chunks =
        ([], if length (filter (undecodable parse) ls) < 5 then Returned
             else Threw malformed_stream_error))"
proof (intro conjI impI)
  assume "undecodable parse line"
  then show "process_line parse c line =
        (if c + 1 < 5 then Next (c + 1) None else Throw malformed_stream_error)"
    by (rule process_line_undecodable)
next
  assume a: "startsWith (trim line') ''data:'' \<and> data_payload (trim line') \<noteq> ''[DONE]'' \<and>
    parse (data_payload (trim line')) = Some chunk \<and> delta_content chunk = Inr v"
  then show "process_line parse c line' = Next 0 (if truthy v then v else None)"
    by (simp add: process_line_decoded)
  from a show "for_lines parse c (line' # ls') =
        (case for_lines parse 0 ls' of
           (toks, r) \<Rightarrow> ((case (if truthy v then v else None) of None \<Rightarrow> [] | Some t \<Rightarrow> [t]) @ toks, r))"
    by (intro for_lines_decoded) blast+
next
  assume "(\<forall>l \<in> set ls. \<not> startsWith (trim l) ''data:'' \<or> undecodable parse l) \<and> c < 5"
  then show "for_lines parse c ls =
        (if c + length (filter (undecodable parse) ls) < 5
         then ([], Inr (c + length (filter (undecodable parse) ls)))
         else ([], Inl (Threw malformed_stream_error)))"
    by (intro for_lines_undecodable) blast+
next
  assume a: "(\<forall>l \<in> set ls. (\<not> startsWith (trim l) ''data:'' \<or> undecodable parse l) \<and> CHR 0x0A \<notin> set l) \<and>
    decode dec ini (concat chunks) = (concat (map (\<lambda>l. l @ [CHR 0x0A]) ls), s')"
  then have d: "decode dec ini (concat chunks) = (concat (map (\<lambda>l. l @ [CHR 0x0A]) ls), s')"
    by blast
  have sp: "split_nl (concat (map (\<lambda>l. l @ [CHR 0x0A]) ls) @ []) = ls @ split_nl []"
    using a by (intro split_nl_lines) simp
  have fl: "for_lines parse 0 ls =
        (if 0 + length (filter (undecodable parse) ls) < 5
         then ([], Inr (0 + length (filter (undecodable parse) ls)))
         else ([], Inl (Threw malformed_stream_error)))"
    using a by (intro for_lines_undecodable) simp_all
  show "parseSSEStream parse dec ini chunks =
        ([], if length (filter (undecodable parse) ls) < 5 then Returned
             else Threw malformed_stream_error)"
    using sp fl by (simp add: parseSSEStream_one_chunk [OF d] final_buffer_def trim_def)
qed

text \<open>
  C4 at the input where the code departs from it: the frame \<^verbatim>\<open>data: null\<close>. Its payload
  is not a chunk object, yet it is not skipped: \<^verbatim>\<open>JSON.parse\<close> accepts it, the failure
  count is reset, and the read of \<^verbatim>\<open>chunk.choices\<close> on \<^verbatim>\<open>null\<close>, which is outside the
  \<^verbatim>\<open>try\<close>, throws a \<^verbatim>\<open>TypeError\<close>: the first such frame ends the stream with an error
  that is not the malformed-stream error, from any failure count. The same payload left in
  the buffer when the source ends is read inside a \<^verbatim>\<open>try\<close>, and is skipped.
\<close>

theorem null_frame_not_skipped:
  "process_line (map_of [(''null'', JNull)]) c ''data: null'' =
     Throw (null_property_error ''choices'') \<and>
   parseSSEStream (map_of [(''null'', JNull)]) ascii_decode () [''data: null'' @ [CHR 0x0A]] =
     ([], Threw (null_property_error ''choices'')) \<and>
   null_property_error ''choices'' \<noteq> malformed_stream_error \<and>
   parseSSEStream (map_of [(''null'', JNull)]) ascii_decode () [''data: null''] = ([], Returned)"
  by (simp add: decoder_eval null_property_error_def malformed_stream_error_def new_Error_def)

text \<open>
  C5. The bytes of the frame of "Hi" and a blank line, then the sentinel line and a blank
  line, decode to the single token "Hi" and the decoder returns: in whatever chunks they
  arrive and whatever bytes follow. A data line whose payload is the sentinel makes the
  loop return at once: the lines after it in the chunk are not processed, and a stream
  that holds a sentinel line yields what the lines before it yield, whatever follows.
\<close>

theorem literal_round_trip:
  "(parse (payload_of ''Hi'') = Some (chunk_of ''Hi'') \<and>
    concat chunks =
      ''data: '' @ payload_of ''Hi'' @ [CHR 0x0A, CHR 0x0A] @ ''data: [DONE]'' @ [CHR 0x0A, CHR 0x0A] @ extra \<longrightarrow>
      parseSSEStream parse ascii_decode () chunks = ([JStr ''Hi''], Returned)) \<and>
   (startsWith (trim line) ''data:'' \<and> data_payload (trim line) = ''[DONE]'' \<longrightarrow>
      process_line parse c line = Return \<and>
      for_lines parse c (line # post) = ([], Inl Returned)) \<and>
   (startsWith (trim line) ''data:'' \<and> data_payload (trim line) = ''[DONE]'' \<and>
    (\<forall>l \<in> set (pre @ [line]). CHR 0x0A \<notin> set l) \<and>
    decode dec ini (concat chunks') =
      (concat (map (\<lambda>l. l @ [CHR 0x0A]) (pre @ [line])) @ extra', s') \<longrightarrow>
      parseSSEStream parse dec ini chunks' =
        (case for_lines parse 0 pre of
           (toks, Inl e) \<Rightarrow> (toks, e)
         | (toks, Inr n) \<Rightarrow> (toks, Returned)))"
proof (intro conjI impI)
  assume a: "parse (payload_of ''Hi'') = Some (chunk_of ''Hi'') \<and>
    concat chunks =
      ''data: '' @ payload_of ''Hi'' @ [CHR 0x0A, CHR 0x0A] @ ''data: [DONE]'' @ [CHR 0x0A, CHR 0x0A] @ extra"
  let ?hi = "''data: '' @ payload_of ''Hi''"
  have d: "decode ascii_decode () (concat chunks) =
      (concat (map (\<lambda>l. l @ [CHR 0x0A]) ([?hi, []] @ [''data: [DONE]''])) @ (CHR 0x0A # extra), ())"
    using a unfolding decode_ascii by simp
  have nl: "\<forall>l \<in> set ([?hi, []] @ [''data: [DONE]'']). CHR 0x0A \<notin> set l"
    by (simp add: payload_of_def)
  have st: "startsWith (trim ''data: [DONE]'') ''data:''" "data_payload (trim ''data: [DONE]'') = ''[DONE]''"
    by (simp_all add: decoder_eval)
  have hi: "process_line parse 0 ?hi = Next 0 (Some (JStr ''Hi''))"
    using a by (simp add: decoder_eval)
  have em: "process_line parse 0 [] = Next 0 None"
    by (simp add: decoder_eval)
  have "for_lines parse 0 [?hi, []] = ([JStr ''Hi''], Inr 0)"
    using hi em by simp
  then show "parseSSEStream parse ascii_decode () chunks = ([JStr ''Hi''], Returned)"
    by (simp add: sentinel_in_stream [OF d nl st])
next
  assume a: "startsWith (trim line) ''data:'' \<and> data_payload (trim line) = ''[DONE]''"
  then show "process_line parse c line = Return"
    by (simp add: process_line_sentinel)
  from a show "for_lines parse c (line # post) = ([], Inl Returned)"
    by (simp add: process_line_sentinel)
next
  assume a: "startsWith (trim line) ''data:'' \<and> data_payload (trim line) = ''[DONE]'' \<and>
    (\<forall>l \<in> set (pre @ [line]). CHR 0x0A \<notin> set l) \<and>
    decode dec ini (concat chunks') =
      (concat (map (\<lambda>l. l @ [CHR 0x0A]) (pre @ [line])) @ extra', s')"
  show "parseSSEStream parse dec ini chunks' =
        (case for_lines parse 0 pre of
           (toks, Inl e) \<Rightarrow> (toks, e)
         | (toks, Inr n) \<Rightarrow> (toks, Returned))"
    using a by (intro sentinel_in_stream) blast+
qed

theorem malformed_frame_threshold_witness:
  "process_line (map_of [(payload_of ''A'', chunk_of ''A'')]) 3 ''data: {oops'' = Next 4 None \<and>
   process_line (map_of [(payload_of ''A'', chunk_of ''A'')]) 4 (''data: '' @ payload_of ''A'') =
     Next 0 (Some (JStr ''A'')) \<and>
   for_lines (map_of [(payload_of ''A'', chunk_of ''A'')]) 4
     [''data: '' @ payload_of ''A'', ''data: {oops'', ''data: {oops'', ''data: {oops'', ''data: {oops''] =
     ([JStr ''A''], Inr 4) \<and>
   for_lines (map_of [(payload_of ''A'', chunk_of ''A'')]) 1
     [''data: {oops'', [], ''data: {oops'', ''data: {oops'', '': ping'', ''data: {oops''] =
     ([], Inl (Threw malformed_stream_error)) \<and>
   parseSSEStream (map_of [(payload_of ''A'', chunk_of ''A'')]) ascii_decode ()
     [''data: {oops'' @ [CHR 0x0A, CHR 0x0A] @ ''data: {oo'', ''ps'' @ [CHR 0x0A, CHR 0x0A]] =
     ([], Returned)"
proof -
  let ?P = "map_of [(payload_of ''A'', chunk_of ''A'')]"
  have u: "undecodable ?P ''data: {oops''"
    by (simp add: undecodable_def decoder_eval)
  have nb: "\<not> undecodable ?P []" "\<not> undecodable ?P '': ping''"
    by (simp_all add: undecodable_def decoder_eval)
  have ig: "\<not> startsWith (trim []) ''data:''" "\<not> startsWith (trim '': ping'') ''data:''"
    by (simp_all add: decoder_eval)
  have ok: "startsWith (trim (''data: '' @ payload_of ''A'')) ''data:'' \<and>
      data_payload (trim (''data: '' @ payload_of ''A'')) \<noteq> ''[DONE]'' \<and>
      ?P (data_payload (trim (''data: '' @ payload_of ''A''))) = Some (chunk_of ''A'') \<and>
      delta_content (chunk_of ''A'') = Inr (Some (JStr ''A''))"
    by (simp add: decoder_eval)
  have run: "(\<forall>l \<in> set [''data: {oops'', [], ''data: {oops'', ''data: {oops'', '': ping'', ''data: {oops''].
      \<not> startsWith (trim l) ''data:'' \<or> undecodable ?P l) \<and> (1::nat) < 5"
    using u ig by simp
  have four: "(\<forall>l \<in> set [''data: {oops'', ''data: {oops'', ''data: {oops'', ''data: {oops''].
      \<not> startsWith (trim l) ''data:'' \<or> undecodable ?P l) \<and> (0::nat) < 5"
    using u by simp
  have str: "(\<forall>l \<in> set [''data: {oops'', [], ''data: {oops'', []].
        (\<not> startsWith (trim l) ''data:'' \<or> undecodable ?P l) \<and> CHR 0x0A \<notin> set l) \<and>
      decode ascii_decode ()
        (concat [''data: {oops'' @ [CHR 0x0A, CHR 0x0A] @ ''data: {oo'', ''ps'' @ [CHR 0x0A, CHR 0x0A]]) =
      (concat (map (\<lambda>l. l @ [CHR 0x0A]) [''data: {oops'', [], ''data: {oops'', []]), ())"
    using u ig unfolding decode_ascii by simp
  have a: "process_line ?P 3 ''data: {oops'' = Next 4 None"
    using conjunct1 [OF malformed_frame_threshold [where parse = ?P and line = "''data: {oops''" and c = 3]] u
    by simp
  note good = malformed_frame_threshold [where parse = ?P and line' = "''data: '' @ payload_of ''A''"
        and c = 4 and chunk = "chunk_of ''A''" and v = "Some (JStr ''A'')"
        and ls' = "[''data: {oops'', ''data: {oops'', ''data: {oops'', ''data: {oops'']"]
  have g: "process_line ?P 4 (''data: '' @ payload_of ''A'') =
        Next 0 (if truthy (Some (JStr ''A'')) then Some (JStr ''A'') else None) \<and>
      for_lines ?P 4
        [''data: '' @ payload_of ''A'', ''data: {oops'', ''data: {oops'', ''data: {oops'', ''data: {oops''] =
        (case for_lines ?P 0 [''data: {oops'', ''data: {oops'', ''data: {oops'', ''data: {oops''] of
           (toks, r) \<Rightarrow> ((case (if truthy (Some (JStr ''A'')) then Some (JStr ''A'') else None) of
                         None \<Rightarrow> [] | Some t \<Rightarrow> [t]) @ toks, r))"
    using conjunct1 [OF conjunct2 [OF good]] ok by blast
  have b: "process_line ?P 4 (''data: '' @ payload_of ''A'') = Next 0 (Some (JStr ''A''))"
    using g by (simp del: for_lines.simps)
  have r0: "for_lines ?P 0 [''data: {oops'', ''data: {oops'', ''data: {oops'', ''data: {oops''] =
     ([], Inr 4)"
    using conjunct1 [OF conjunct2 [OF conjunct2 [OF malformed_frame_threshold [where parse = ?P and c = 0
        and ls = "[''data: {oops'', ''data: {oops'', ''data: {oops'', ''data: {oops'']"]]]]
      four u
    by (simp del: for_lines.simps)
  have "for_lines ?P 4
     [''data: '' @ payload_of ''A'', ''data: {oops'', ''data: {oops'', ''data: {oops'', ''data: {oops''] =
     (case for_lines ?P 0 [''data: {oops'', ''data: {oops'', ''data: {oops'', ''data: {oops''] of
        (toks, r) \<Rightarrow> ((case (if truthy (Some (JStr ''A'')) then Some (JStr ''A'') else None) of
                         None \<Rightarrow> [] | Some t \<Rightarrow> [t]) @ toks, r))"
    using g by blast
  then have r: "for_lines ?P 4
     [''data: '' @ payload_of ''A'', ''data: {oops'', ''data: {oops'', ''data: {oops'', ''data: {oops''] =
     ([JStr ''A''], Inr 4)"
    unfolding r0 by simp
  have c: "for_lines ?P 1 [''data: {oops'', [], ''data: {oops'', ''data: {oops'', '': ping'', ''data: {oops''] =
     ([], Inl (Threw malformed_stream_error))"
    using conjunct1 [OF conjunct2 [OF conjunct2 [OF malformed_frame_threshold [where parse = ?P and c = 1
        and ls = "[''data: {oops'', [], ''data: {oops'', ''data: {oops'', '': ping'', ''data: {oops'']"]]]]
      run u nb
    by (simp del: for_lines.simps)
  have d: "parseSSEStream ?P ascii_decode ()
     [''data: {oops'' @ [CHR 0x0A, CHR 0x0A] @ ''data: {oo'', ''ps'' @ [CHR 0x0A, CHR 0x0A]] = ([], Returned)"
    using conjunct2 [OF conjunct2 [OF conjunct2 [OF malformed_frame_threshold [where parse = ?P
        and dec = ascii_decode and ini = "()" and s' = "()"
        and ls = "[''data: {oops'', [], ''data: {oops'', []]"
        and chunks = "[''data: {oops'' @ [CHR 0x0A, CHR 0x0A] @ ''data: {oo'', ''ps'' @ [CHR 0x0A, CHR 0x0A]]"]]]]
      str u nb
    by simp
  from a b r c d show ?thesis by blast
qed

theorem literal_round_trip_witness:
  "parseSSEStream (map_of [(payload_of ''Hi'', chunk_of ''Hi'')]) ascii_decode ()
     [''data: '' @ payload_of ''Hi'' @ [CHR 0x0A, CHR 0x0A], ''data: [DONE]'' @ [CHR 0x0A, CHR 0x0A]] =
     ([JStr ''Hi''], Returned) \<and>
   for_lines (map_of [(payload_of ''Hi'', chunk_of ''Hi'')]) 0
     [''data: [DONE]'', ''data: '' @ payload_of ''Hi''] = ([], Inl Returned) \<and>
   parseSSEStream (map_of [(payload_of ''Hi'', chunk_of ''Hi'')]) ascii_decode ()
     [''data: [DONE]'' @ [CHR 0x0A] @ ''data: '' @ payload_of ''Hi'' @ [CHR 0x0A]] = ([], Returned)"
proof -
  let ?P = "map_of [(payload_of ''Hi'', chunk_of ''Hi'')]"
  have st: "startsWith (trim ''data: [DONE]'') ''data:'' \<and> data_payload (trim ''data: [DONE]'') = ''[DONE]''"
    by (simp add: decoder_eval)
  have h1: "?P (payload_of ''Hi'') = Some (chunk_of ''Hi'') \<and>
    concat [''data: '' @ payload_of ''Hi'' @ [CHR 0x0A, CHR 0x0A], ''data: [DONE]'' @ [CHR 0x0A, CHR 0x0A]] =
      ''data: '' @ payload_of ''Hi'' @ [CHR 0x0A, CHR 0x0A] @ ''data: [DONE]'' @ [CHR 0x0A, CHR 0x0A] @ []"
    by simp
  have h3: "startsWith (trim ''data: [DONE]'') ''data:'' \<and> data_payload (trim ''data: [DONE]'') = ''[DONE]'' \<and>
    (\<forall>l \<in> set ([] @ [''data: [DONE]'']). CHR 0x0A \<notin> set l) \<and>
    decode ascii_decode () (concat [''data: [DONE]'' @ [CHR 0x0A] @ ''data: '' @ payload_of ''Hi'' @ [CHR 0x0A]]) =
      (concat (map (\<lambda>l. l @ [CHR 0x0A]) ([] @ [''data: [DONE]''])) @ (''data: '' @ payload_of ''Hi'' @ [CHR 0x0A]), ())"
    using st unfolding decode_ascii by simp
  note inst = literal_round_trip [where parse = ?P
      and chunks = "[''data: '' @ payload_of ''Hi'' @ [CHR 0x0A, CHR 0x0A], ''data: [DONE]'' @ [CHR 0x0A, CHR 0x0A]]"
      and extra = "[]" and line = "''data: [DONE]''" and c = 0 and post = "[''data: '' @ payload_of ''Hi'']"
      and pre = "[]" and dec = ascii_decode and ini = "()" and s' = "()"
      and chunks' = "[''data: [DONE]'' @ [CHR 0x0A] @ ''data: '' @ payload_of ''Hi'' @ [CHR 0x0A]]"
      and extra' = "''data: '' @ payload_of ''Hi'' @ [CHR 0x0A]"]
  have a: "parseSSEStream ?P ascii_decode ()
     [''data: '' @ payload_of ''Hi'' @ [CHR 0x0A, CHR 0x0A], ''data: [DONE]'' @ [CHR 0x0A, CHR 0x0A]] =
     ([JStr ''Hi''], Returned)"
    using inst h1 by blast
  have b: "for_lines ?P 0 [''data: [DONE]'', ''data: '' @ payload_of ''Hi''] = ([], Inl Returned)"
    using inst st by blast
  have c: "parseSSEStream ?P ascii_decode ()
     [''data: [DONE]'' @ [CHR 0x0A] @ ''data: '' @ payload_of ''Hi'' @ [CHR 0x0A]] = ([], Returned)"
    using inst h3 by simp
  from a b c show ?thesis by blast
qed

section \<open>The transport client\<close>

lemma show500: "show_nat 500 = ''500''"
  by code_simp



lemma timeout_message_carries:
  "includes_str (timeout_message config) (baseUrl config) \<and>
   includes_str (timeout_message config) (PROVIDER_NAMES (ptype config))"
  unfolding timeout_message_def includes_str_def
  by (metis append.assoc sublist_appendI)

lemma refused_message_carries:
  "includes_str (refused_message config) (baseUrl config) \<and>
   includes_str (refused_message config) (PROVIDER_NAMES (ptype config))"
  unfolding refused_message_def includes_str_def
  by (metis append.assoc sublist_appendI)

lemma unreachable_message_carries:
  "includes_str (unreachable_message config) (baseUrl config) \<and>
   includes_str (unreachable_message config) (PROVIDER_NAMES (ptype config))"
  unfolding unreachable_message_def includes_str_def
  by (metis append.assoc sublist_appendI)


lemma reply_sel:
  "status (reply st txt) = st" "statusText (reply st txt) = txt" "stream_body (reply st txt) = None"
  by (simp_all add: reply_def)

lemma passes_through:
  "err_class e = ClsError \<Longrightarrow> err_name e = ''Error'' \<Longrightarrow> \<not> includes_str (err_message e) ''fetch'' \<Longrightarrow>
   translateFetchError (Exn e) config = e"
  by (simp add: translateFetchError_def)

lemma empty_body_no_fetch: "\<not> includes_str (err_message empty_body_error) ''fetch''"
  by (simp add: empty_body_error_def new_Error_def em_dash_def includes_str_def sublist_Cons_right)

lemma empty_body_passes: "translateFetchError (Exn empty_body_error) config = empty_body_error"
  using empty_body_no_fetch
  by (intro passes_through) (simp_all add: empty_body_error_def new_Error_def)

text \<open>
  C7, as stated, fails: a non-success HTTP status and an empty streaming body are
  surfaced with their own messages, which name neither the endpoint nor the provider.
  Here: status 500, and status 200 with no body, from Ollama at its default address.
\<close>

theorem http_status_error_counterexample:
  "sendChatStream cfg0 (env0\<lparr>fetch := (\<lambda>u b. Inr (reply 500 ''Internal Server Error''))\<rparr>)
     (req_of [text_msg RUser ''hello'']) =
     Inl (new_Error ''Server returned 500 Internal Server Error'') \<and>
   \<not> includes_str ''Server returned 500 Internal Server Error'' (baseUrl cfg0) \<and>
   \<not> includes_str ''Server returned 500 Internal Server Error'' (PROVIDER_NAMES (ptype cfg0)) \<and>
   sendChatStream cfg0 (env0\<lparr>fetch := (\<lambda>u b. Inr (reply 200 ''OK''))\<rparr>)
     (req_of [text_msg RUser ''hello'']) = Inl empty_body_error \<and>
   \<not> includes_str (err_message empty_body_error) (baseUrl cfg0) \<and>
   \<not> includes_str (err_message empty_body_error) (PROVIDER_NAMES (ptype cfg0))"
proof -
  have nf: "\<not> includes_str ''Server returned 500 Internal Server Error'' ''fetch''"
    by (simp add: includes_str_def sublist_Cons_right)
  have se: "status_error (reply 500 ''Internal Server Error'') =
      new_Error ''Server returned 500 Internal Server Error''"
    by (simp add: status_error_def reply_def show500)
  have a: "sendChatStream cfg0 (env0\<lparr>fetch := (\<lambda>u b. Inr (reply 500 ''Internal Server Error''))\<rparr>)
     (req_of [text_msg RUser ''hello'']) =
     Inl (new_Error ''Server returned 500 Internal Server Error'')"
    using nf
    by (simp add: sendChatStream_def se resp_ok_def passes_through new_Error_def reply_sel)
  have b: "\<not> includes_str ''Server returned 500 Internal Server Error'' (baseUrl cfg0)"
    by (simp add: includes_str_def sublist_Cons_right cfg0_def)
  have c: "\<not> includes_str ''Server returned 500 Internal Server Error'' (PROVIDER_NAMES (ptype cfg0))"
    by (simp add: includes_str_def sublist_Cons_right cfg0_def)
  have d: "sendChatStream cfg0 (env0\<lparr>fetch := (\<lambda>u b. Inr (reply 200 ''OK''))\<rparr>)
     (req_of [text_msg RUser ''hello'']) = Inl empty_body_error"
    by (simp add: sendChatStream_def resp_ok_def empty_body_passes reply_sel)
  have e: "\<not> includes_str (err_message empty_body_error) (baseUrl cfg0)"
    by (simp add: includes_str_def sublist_Cons_right cfg0_def empty_body_error_def new_Error_def em_dash_def)
  have f: "\<not> includes_str (err_message empty_body_error) (PROVIDER_NAMES (ptype cfg0))"
    by (simp add: includes_str_def sublist_Cons_right cfg0_def empty_body_error_def new_Error_def em_dash_def)
  from a b c d e f show ?thesis by blast
qed

lemma status_error_translated:
  "translateFetchError (Exn (status_error res)) config =
     (if includes_str (err_message (status_error res)) ''fetch'' then
        (if includes_str (err_message (status_error res)) ''ECONNREFUSED''
         then new_Error (refused_message config) else new_Error (unreachable_message config))
      else status_error res)"
  by (simp add: translateFetchError_def status_error_def new_Error_def)

lemma includes_trans: "includes_str s t \<Longrightarrow> includes_str t u \<Longrightarrow> includes_str s u"
  unfolding includes_str_def by (rule sublist_order.order_trans [rotated])

lemma empty_body_no_http: "\<not> includes_str (err_message empty_body_error) ''http''"
  by (simp add: empty_body_error_def new_Error_def em_dash_def includes_str_def sublist_Cons_right)

lemma empty_body_no_label: "\<not> includes_str (err_message empty_body_error) (PROVIDER_NAMES p)"
  by (cases p)
     (simp_all add: empty_body_error_def new_Error_def em_dash_def includes_str_def sublist_Cons_right)

text \<open>
  C7, amended. A timeout or cancellation, a refused connection and any other network
  failure of \<^verbatim>\<open>fetch\<close> are surfaced as an error whose message contains both the configured
  base URL and the provider's label; what \<^verbatim>\<open>fetch\<close> throws reaches the caller of the
  streaming call through that translation. A non-success HTTP status is surfaced as the
  error whose message is exactly "Server returned (status) (status text)", with nothing
  added to it, except when that text contains "fetch": then it is reported as a network
  failure, with the refused-connection message if the text also contains "ECONNREFUSED"
  and the cannot-connect message otherwise. An empty streaming body is surfaced as the
  error whose message is exactly "Response body is empty (dash) streaming not supported by
  server", with nothing added: it contains no provider's label, and no base URL that
  contains "http".
\<close>

theorem transport_failure_messages:
  "(err_class e = ClsDOMException \<and> err_name e = ''TimeoutError'' \<longrightarrow>
      translateFetchError (Exn e) config = new_Error (timeout_message config)) \<and>
   (err_name e = ''AbortError'' \<longrightarrow>
      translateFetchError (Exn e) config = new_Error (timeout_message config)) \<and>
   (err_name e \<noteq> ''TimeoutError'' \<and> err_name e \<noteq> ''AbortError'' \<and>
    (err_class e = ClsTypeError \<or> includes_str (err_message e) ''fetch'') \<longrightarrow>
      translateFetchError (Exn e) config =
        (if err_cause_code e = Some ''ECONNREFUSED'' \<or> includes_str (err_message e) ''ECONNREFUSED''
         then new_Error (refused_message config) else new_Error (unreachable_message config))) \<and>
   includes_str (timeout_message config) (baseUrl config) \<and>
   includes_str (timeout_message config) (PROVIDER_NAMES (ptype config)) \<and>
   includes_str (refused_message config) (baseUrl config) \<and>
   includes_str (refused_message config) (PROVIDER_NAMES (ptype config)) \<and>
   includes_str (unreachable_message config) (baseUrl config) \<and>
   includes_str (unreachable_message config) (PROVIDER_NAMES (ptype config)) \<and>
   (fetch env (completions_url config) (stream_request_body env request) = Inl (Exn e) \<longrightarrow>
      sendChatStream config env request = Inl (translateFetchError (Exn e) config)) \<and>
   (fetch env (completions_url config) (stream_request_body env request) = Inr res \<and>
    \<not> resp_ok (status res) \<longrightarrow>
      sendChatStream config env request =
        Inl (if includes_str (''Server returned '' @ show_nat (status res) @ '' '' @ statusText res) ''fetch''
             then (if includes_str (''Server returned '' @ show_nat (status res) @ '' '' @ statusText res)
                        ''ECONNREFUSED''
                   then new_Error (refused_message config)
                   else new_Error (unreachable_message config))
             else new_Error (''Server returned '' @ show_nat (status res) @ '' '' @ statusText res))) \<and>
   (fetch env (completions_url config) (stream_request_body env request) = Inr res \<and>
    resp_ok (status res) \<and> stream_body res = None \<longrightarrow>
      sendChatStream config env request =
        Inl (new_Error (''Response body is empty '' @ em_dash @ '' streaming not supported by server''))) \<and>
   \<not> includes_str (''Response body is empty '' @ em_dash @ '' streaming not supported by server'')
       (PROVIDER_NAMES p) \<and>
   (includes_str (baseUrl config) ''http'' \<longrightarrow>
      \<not> includes_str (''Response body is empty '' @ em_dash @ '' streaming not supported by server'')
          (baseUrl config))"
proof (intro conjI impI)
  show "includes_str (timeout_message config) (baseUrl config)"
    "includes_str (timeout_message config) (PROVIDER_NAMES (ptype config))"
    using timeout_message_carries by blast+
  show "includes_str (refused_message config) (baseUrl config)"
    "includes_str (refused_message config) (PROVIDER_NAMES (ptype config))"
    using refused_message_carries by blast+
  show "includes_str (unreachable_message config) (baseUrl config)"
    "includes_str (unreachable_message config) (PROVIDER_NAMES (ptype config))"
    using unreachable_message_carries by blast+
next
  assume "err_class e = ClsDOMException \<and> err_name e = ''TimeoutError''"
  then show "translateFetchError (Exn e) config = new_Error (timeout_message config)"
    by (simp add: translateFetchError_def)
next
  assume "err_name e = ''AbortError''"
  then show "translateFetchError (Exn e) config = new_Error (timeout_message config)"
    by (simp add: translateFetchError_def)
next
  assume "err_name e \<noteq> ''TimeoutError'' \<and> err_name e \<noteq> ''AbortError'' \<and>
    (err_class e = ClsTypeError \<or> includes_str (err_message e) ''fetch'')"
  then show "translateFetchError (Exn e) config =
        (if err_cause_code e = Some ''ECONNREFUSED'' \<or> includes_str (err_message e) ''ECONNREFUSED''
         then new_Error (refused_message config) else new_Error (unreachable_message config))"
    by (auto simp: translateFetchError_def)
next
  assume "fetch env (completions_url config) (stream_request_body env request) = Inl (Exn e)"
  then show "sendChatStream config env request = Inl (translateFetchError (Exn e) config)"
    by (simp add: sendChatStream_def)
next
  let ?msg = "''Server returned '' @ show_nat (status res) @ '' '' @ statusText res"
  assume a: "fetch env (completions_url config) (stream_request_body env request) = Inr res \<and>
    \<not> resp_ok (status res)"
  have m: "err_message (status_error res) = ?msg" and s: "status_error res = new_Error ?msg"
    by (simp_all add: status_error_def new_Error_def)
  have "sendChatStream config env request = Inl (translateFetchError (Exn (status_error res)) config)"
    using a by (simp add: sendChatStream_def)
  then have "sendChatStream config env request =
        Inl (if includes_str (err_message (status_error res)) ''fetch''
             then (if includes_str (err_message (status_error res)) ''ECONNREFUSED''
                   then new_Error (refused_message config)
                   else new_Error (unreachable_message config))
             else status_error res)"
    by (simp only: status_error_translated)
  then show "sendChatStream config env request =
        Inl (if includes_str ?msg ''fetch''
             then (if includes_str ?msg ''ECONNREFUSED''
                   then new_Error (refused_message config)
                   else new_Error (unreachable_message config))
             else new_Error ?msg)"
    by (simp only: m) (simp only: s)
next
  assume "fetch env (completions_url config) (stream_request_body env request) = Inr res \<and>
    resp_ok (status res) \<and> stream_body res = None"
  then show "sendChatStream config env request =
        Inl (new_Error (''Response body is empty '' @ em_dash @ '' streaming not supported by server''))"
    by (simp add: sendChatStream_def empty_body_passes) (simp add: empty_body_error_def)
next
  show "\<not> includes_str (''Response body is empty '' @ em_dash @ '' streaming not supported by server'')
       (PROVIDER_NAMES p)"
    using empty_body_no_label [of p] by (simp add: empty_body_error_def new_Error_def)
next
  assume u: "includes_str (baseUrl config) ''http''"
  show "\<not> includes_str (''Response body is empty '' @ em_dash @ '' streaming not supported by server'')
          (baseUrl config)"
  proof
    assume "includes_str (''Response body is empty '' @ em_dash @ '' streaming not supported by server'')
          (baseUrl config)"
    from includes_trans [OF this u] empty_body_no_http show False
      by (simp add: empty_body_error_def new_Error_def)
  qed
qed

theorem transport_failure_messages_witness:
  "translateFetchError
     (Exn \<lparr>err_class = ClsDOMException, err_name = ''TimeoutError'',
           err_message = ''The operation was aborted due to timeout'', err_cause_code = None\<rparr>) cfg0 =
     new_Error ''Server took too long to respond. Check that Ollama is running at http://localhost:11434.'' \<and>
   sendChatStream cfg0 env0 (req_of [text_msg RUser ''hello'']) =
     Inl (new_Error ''Server not running at http://localhost:11434. Start your Ollama server and try again.'') \<and>
   sendChatStream cfg0 (env0\<lparr>fetch := (\<lambda>u b. Inr (reply 404 ''Not Found''))\<rparr>)
     (req_of [text_msg RUser ''hello'']) = Inl (new_Error ''Server returned 404 Not Found'') \<and>
   sendChatStream cfg0 (env0\<lparr>fetch := (\<lambda>u b. Inr (reply 502 ''Upstream prefetch error''))\<rparr>)
     (req_of [text_msg RUser ''hello'']) =
     Inl (new_Error (''Cannot connect to Ollama at http://localhost:11434 '' @ em_dash @ '' is it running?'')) \<and>
   sendChatStream cfg0 (env0\<lparr>fetch := (\<lambda>u b. Inr (reply 200 ''OK''))\<rparr>)
     (req_of [text_msg RUser ''hello'']) =
     Inl (new_Error (''Response body is empty '' @ em_dash @ '' streaming not supported by server'')) \<and>
   \<not> includes_str (''Response body is empty '' @ em_dash @ '' streaming not supported by server'')
       (baseUrl cfg0)"
proof -
  let ?t = "\<lparr>err_class = ClsDOMException, err_name = ''TimeoutError'',
             err_message = ''The operation was aborted due to timeout'', err_cause_code = None\<rparr>"
  let ?rq = "req_of [text_msg RUser ''hello'']"
  let ?e404 = "env0\<lparr>fetch := (\<lambda>u b. Inr (reply 404 ''Not Found''))\<rparr>"
  let ?e502 = "env0\<lparr>fetch := (\<lambda>u b. Inr (reply 502 ''Upstream prefetch error''))\<rparr>"
  let ?e200 = "env0\<lparr>fetch := (\<lambda>u b. Inr (reply 200 ''OK''))\<rparr>"
  have a: "translateFetchError (Exn ?t) cfg0 =
     new_Error ''Server took too long to respond. Check that Ollama is running at http://localhost:11434.''"
    using transport_failure_messages [where e = ?t and config = cfg0]
    by (simp add: timeout_message_def cfg0_def)
  have h2: "err_name fetch_failed \<noteq> ''TimeoutError'' \<and> err_name fetch_failed \<noteq> ''AbortError'' \<and>
      (err_class fetch_failed = ClsTypeError \<or> includes_str (err_message fetch_failed) ''fetch'')"
    by (simp add: fetch_failed_def)
  have f2: "fetch env0 (completions_url cfg0) (stream_request_body env0 ?rq) = Inl (Exn fetch_failed)"
    by (simp add: env0_def)
  have "sendChatStream cfg0 env0 ?rq = Inl (translateFetchError (Exn fetch_failed) cfg0)"
    using transport_failure_messages [where e = fetch_failed and config = cfg0 and env = env0
        and request = ?rq] f2 by blast
  moreover have "translateFetchError (Exn fetch_failed) cfg0 = new_Error (refused_message cfg0)"
    using transport_failure_messages [where e = fetch_failed and config = cfg0] h2
    by (simp add: fetch_failed_def)
  ultimately have b: "sendChatStream cfg0 env0 ?rq =
     Inl (new_Error ''Server not running at http://localhost:11434. Start your Ollama server and try again.'')"
    by (simp add: refused_message_def cfg0_def)
  have s404: "show_nat 404 = ''404''" by code_simp
  have s502: "show_nat 502 = ''502''" by code_simp
  have nf: "\<not> includes_str ''Server returned 404 Not Found'' ''fetch''"
    by (simp add: includes_str_def sublist_Cons_right)
  have h3: "fetch ?e404 (completions_url cfg0) (stream_request_body ?e404 ?rq) = Inr (reply 404 ''Not Found'') \<and>
      \<not> resp_ok (status (reply 404 ''Not Found''))"
    by (simp add: resp_ok_def reply_sel)
  have c: "sendChatStream cfg0 ?e404 ?rq = Inl (new_Error ''Server returned 404 Not Found'')"
    using transport_failure_messages [where config = cfg0 and env = ?e404 and request = ?rq
        and res = "reply 404 ''Not Found''"] h3 nf
    by (simp add: reply_sel s404)
  have yf: "includes_str ''Server returned 502 Upstream prefetch error'' ''fetch''"
    by (simp add: includes_str_def sublist_Cons_right)
  have nr: "\<not> includes_str ''Server returned 502 Upstream prefetch error'' ''ECONNREFUSED''"
    by (simp add: includes_str_def sublist_Cons_right)
  have h5: "fetch ?e502 (completions_url cfg0) (stream_request_body ?e502 ?rq) =
        Inr (reply 502 ''Upstream prefetch error'') \<and>
      \<not> resp_ok (status (reply 502 ''Upstream prefetch error''))"
    by (simp add: resp_ok_def reply_sel)
  have "sendChatStream cfg0 ?e502 ?rq = Inl (new_Error (unreachable_message cfg0))"
    using transport_failure_messages [where config = cfg0 and env = ?e502 and request = ?rq
        and res = "reply 502 ''Upstream prefetch error''"] h5 yf nr
    by (simp add: reply_sel s502)
  then have p: "sendChatStream cfg0 ?e502 ?rq =
     Inl (new_Error (''Cannot connect to Ollama at http://localhost:11434 '' @ em_dash @ '' is it running?''))"
    by (simp add: unreachable_message_def cfg0_def)
  have h4: "fetch ?e200 (completions_url cfg0) (stream_request_body ?e200 ?rq) = Inr (reply 200 ''OK'') \<and>
      resp_ok (status (reply 200 ''OK'')) \<and> stream_body (reply 200 ''OK'') = None"
    by (simp add: resp_ok_def reply_sel)
  have d: "sendChatStream cfg0 ?e200 ?rq =
     Inl (new_Error (''Response body is empty '' @ em_dash @ '' streaming not supported by server''))"
    using transport_failure_messages [where config = cfg0 and env = ?e200 and request = ?rq
        and res = "reply 200 ''OK''"] h4
    by blast
  have hu: "includes_str (baseUrl cfg0) ''http''"
    by (simp add: cfg0_def includes_str_def)
  have n: "\<not> includes_str (''Response body is empty '' @ em_dash @ '' streaming not supported by server'')
       (baseUrl cfg0)"
    using transport_failure_messages [where config = cfg0] hu by blast
  from a b c p d n show ?thesis by blast
qed

lemma prepare_nth:
  "i < length msgs \<Longrightarrow> list_ex has_images msgs \<Longrightarrow>
   prepareMessagesForApi env msgs ! i =
     (if has_images (msgs ! i) then
        Built (role (msgs ! i))
          (if length (message_parts env (msgs ! i)) > 0 then PartsContent (message_parts env (msgs ! i))
           else TextContent (content (msgs ! i)))
      else Plain (msgs ! i))"
  by (simp add: prepareMessagesForApi_def Let_def)

lemma has_images_in_batch: "i < length msgs \<Longrightarrow> has_images (msgs ! i) \<Longrightarrow> list_ex has_images msgs"
  by (auto simp: list_ex_iff)

text \<open>
  C8. A batch in which no message has images is sent as it is. In any batch the result
  has one entry per message, and a message without images is passed through unmodified.
  A message with images becomes its role with a list of parts: a text part when its text is
  not empty, then one part per image reference in order, which is the image's bytes as an
  inline base64 data URL when the file can be read and the placeholder text part
  "[Image failed to load]" when it cannot; the other parts and messages are unaffected.
\<close>

theorem multimodal_encoding:
  "(\<not> list_ex has_images msgs \<longrightarrow> prepareMessagesForApi env msgs = map Plain msgs) \<and>
   length (prepareMessagesForApi env msgs) = length msgs \<and>
   (i < length msgs \<and> \<not> has_images (msgs ! i) \<longrightarrow>
      prepareMessagesForApi env msgs ! i = Plain (msgs ! i)) \<and>
   (i < length msgs \<and> images (msgs ! i) = Some (p # ps) \<longrightarrow>
      prepareMessagesForApi env msgs ! i =
        Built (role (msgs ! i))
          (PartsContent ((if content (msgs ! i) = [] then [] else [TextPart (content (msgs ! i))]) @
                         map (image_part env) (p # ps)))) \<and>
   (readFileSync env path = Inr bytes \<longrightarrow>
      image_part env path = ImageUrlPart (''data:image/png;base64,'' @ base64 env bytes)) \<and>
   (readFileSync env path = Inl err \<longrightarrow> image_part env path = TextPart ''[Image failed to load]'')"
proof (intro conjI impI)
  assume "\<not> list_ex has_images msgs"
  then show "prepareMessagesForApi env msgs = map Plain msgs"
    by (simp add: prepareMessagesForApi_def)
next
  show "length (prepareMessagesForApi env msgs) = length msgs"
    by (simp add: prepareMessagesForApi_def)
next
  assume a: "i < length msgs \<and> \<not> has_images (msgs ! i)"
  show "prepareMessagesForApi env msgs ! i = Plain (msgs ! i)"
  proof (cases "list_ex has_images msgs")
    case True
    with a show ?thesis by (simp add: prepare_nth)
  next
    case False
    with a show ?thesis by (simp add: prepareMessagesForApi_def)
  qed
next
  assume a: "i < length msgs \<and> images (msgs ! i) = Some (p # ps)"
  then have hi: "has_images (msgs ! i)" by (simp add: has_images_def)
  with a have ex: "list_ex has_images msgs" by (blast intro: has_images_in_batch)
  have "message_parts env (msgs ! i) =
      (if content (msgs ! i) = [] then [] else [TextPart (content (msgs ! i))]) @
      map (image_part env) (p # ps)"
    using a by (simp add: message_parts_def)
  then show "prepareMessagesForApi env msgs ! i =
        Built (role (msgs ! i))
          (PartsContent ((if content (msgs ! i) = [] then [] else [TextPart (content (msgs ! i))]) @
                         map (image_part env) (p # ps)))"
    using a hi ex by (simp add: prepare_nth)
next
  assume "readFileSync env path = Inr bytes"
  then show "image_part env path = ImageUrlPart (''data:image/png;base64,'' @ base64 env bytes)"
    by (simp add: image_part_def)
next
  assume "readFileSync env path = Inl err"
  then show "image_part env path = TextPart ''[Image failed to load]''"
    by (simp add: image_part_def)
qed

theorem multimodal_encoding_witness:
  "prepareMessagesForApi env0 [text_msg RSystem ''Be brief.'', text_msg RUser ''hello''] =
     [Plain (text_msg RSystem ''Be brief.''), Plain (text_msg RUser ''hello'')] \<and>
   prepareMessagesForApi env0
     [text_msg RSystem ''Be brief.'', image_msg ''What is this?'' [''/tmp/a.png'', ''/tmp/missing.png'']] ! 0 =
     Plain (text_msg RSystem ''Be brief.'') \<and>
   prepareMessagesForApi env0
     [text_msg RSystem ''Be brief.'', image_msg ''What is this?'' [''/tmp/a.png'', ''/tmp/missing.png'']] ! 1 =
     Built RUser (PartsContent [TextPart ''What is this?'', ImageUrlPart ''data:image/png;base64,UE5H'',
                                TextPart ''[Image failed to load]''])"
proof -
  let ?plain = "[text_msg RSystem ''Be brief.'', text_msg RUser ''hello'']"
  let ?batch = "[text_msg RSystem ''Be brief.'', image_msg ''What is this?'' [''/tmp/a.png'', ''/tmp/missing.png'']]"
  have h1: "\<not> list_ex has_images ?plain"
    by (simp add: has_images_def text_msg_def)
  have a: "prepareMessagesForApi env0 ?plain = map Plain ?plain"
    using multimodal_encoding [where msgs = ?plain and env = env0] h1 by blast
  have h2: "0 < length ?batch \<and> \<not> has_images (?batch ! 0)"
    by (simp add: has_images_def text_msg_def)
  have b: "prepareMessagesForApi env0 ?batch ! 0 = Plain (?batch ! 0)"
    using multimodal_encoding [where msgs = ?batch and env = env0 and i = 0] h2 by blast
  have h3: "1 < length ?batch \<and> images (?batch ! 1) = Some (''/tmp/a.png'' # [''/tmp/missing.png''])"
    by (simp add: image_msg_def)
  have r1: "readFileSync env0 ''/tmp/a.png'' = Inr ''PNG''"
    by (simp add: env0_def)
  have r2: "readFileSync env0 ''/tmp/missing.png'' = Inl (Exn (new_Error ''ENOENT: no such file or directory''))"
    by (simp add: env0_def)
  have p1: "image_part env0 ''/tmp/a.png'' = ImageUrlPart (''data:image/png;base64,'' @ base64 env0 ''PNG'')"
    using multimodal_encoding [where env = env0 and path = "''/tmp/a.png''" and bytes = "''PNG''"] r1
    by blast
  have p2: "image_part env0 ''/tmp/missing.png'' = TextPart ''[Image failed to load]''"
    using multimodal_encoding [where env = env0 and path = "''/tmp/missing.png''"
        and err = "Exn (new_Error ''ENOENT: no such file or directory'')"] r2
    by blast
  have c: "prepareMessagesForApi env0 ?batch ! 1 =
      Built (role (?batch ! 1))
        (PartsContent ((if content (?batch ! 1) = [] then [] else [TextPart (content (?batch ! 1))]) @
                       map (image_part env0) (''/tmp/a.png'' # [''/tmp/missing.png''])))"
    using multimodal_encoding [where msgs = ?batch and env = env0 and i = 1
        and p = "''/tmp/a.png''" and ps = "[''/tmp/missing.png'']"] h3 by blast
  have b64: "base64 env0 ''PNG'' = ''UE5H''" by (simp add: env0_def)
  from a b c p1 p2 b64 show ?thesis
    by (simp add: image_msg_def)
qed

section \<open>The orchestrator: store, tool execution, rounds\<close>

lemma deref_push: "deref (push a x h) b = (if b = a then deref h a @ [x] else deref h b)"
  by (simp add: deref_def push_def)

lemma next_free_push: "next_free (push a x h) = next_free h"
  by (simp add: push_def)

lemma execute_tool_calls_effect:
  "m \<noteq> t \<Longrightarrow> execute_tool_calls env m t tcs h = (r, h') \<Longrightarrow>
   r = snd (tool_results env tcs) \<and>
   deref h' m = deref h m @ fst (tool_results env tcs) \<and>
   deref h' t = deref h t @ fst (tool_results env tcs) \<and>
   (\<forall>a. a \<noteq> m \<longrightarrow> a \<noteq> t \<longrightarrow> deref h' a = deref h a) \<and>
   next_free h' = next_free h"
proof (induction tcs arbitrary: h)
  case Nil
  then show ?case by simp
next
  case (Cons tc tcs)
  show ?case
  proof (cases "executeTool env tc")
    case (Inl e)
    with Cons.prems show ?thesis by simp
  next
    case (Inr result)
    let ?h = "push t (toolMsg result tc) (push m (toolMsg result tc) h)"
    have run: "execute_tool_calls env m t tcs ?h = (r, h')"
      using Cons.prems Inr by simp
    note ih = Cons.IH [OF Cons.prems(1) run]
    obtain ms e where tr: "tool_results env tcs = (ms, e)"
      by (cases "tool_results env tcs")
    show ?thesis
      using ih Cons.prems(1) by (simp add: Inr tr deref_push next_free_push)
  qed
qed

lemma tool_results_all_ok:
  "\<forall>tc \<in> set tcs. executeTool env tc = Inr (res tc) \<Longrightarrow>
   tool_results env tcs = (map (\<lambda>tc. toolMsg (res tc) tc) tcs, None)"
  by (induction tcs) auto

lemma tool_results_shape:
  "tool_results env tcs = (ms, None) \<Longrightarrow>
   length ms = length tcs \<and> map tool_call_id ms = map (\<lambda>tc. Some (tc_id tc)) tcs \<and>
   list_all (\<lambda>x. role x = RTool) ms"
proof (induction tcs arbitrary: ms)
  case Nil
  then show ?case by simp
next
  case (Cons tc tcs)
  then show ?case
    by (auto simp: toolMsg_def split: sum.splits prod.splits)
qed

text \<open>
  What \<^verbatim>\<open>executeTool\<close> turns into a result string, and the one way it throws.
\<close>

lemma executeTool_invalid_json:
  "JSON_parse env (tc_arguments tc) = None \<Longrightarrow>
   executeTool env tc = Inr (''Error: Invalid JSON arguments for tool '' @ quoted (tc_name tc))"
  by (simp add: executeTool_def)

lemma executeTool_unknown_tool:
  "JSON_parse env (tc_arguments tc) = Some args \<Longrightarrow> tc_name tc \<noteq> ''web_search'' \<Longrightarrow>
   executeTool env tc = Inr (''Error: Unknown tool '' @ quoted (tc_name tc))"
  by (simp add: executeTool_def)

lemma executeTool_search_failed:
  "JSON_parse env (tc_arguments tc) = Some args \<Longrightarrow> tc_name tc = ''web_search'' \<Longrightarrow>
   args \<noteq> JNull \<Longrightarrow> field args ''query'' = Some q \<Longrightarrow> truthy (Some q) \<Longrightarrow>
   webSearch env q = Inl (Exn x) \<Longrightarrow>
   executeTool env tc = Inr (''Search error: '' @ err_message x)"
  by (simp add: executeTool_def)

lemma executeTool_throws_only_on_null:
  "executeTool env tc = Inl e \<Longrightarrow>
   tc_name tc = ''web_search'' \<and> JSON_parse env (tc_arguments tc) = Some JNull \<and>
   e = null_property_error ''query''"
  by (auto simp: executeTool_def split: option.splits if_splits sum.splits)

lemma rounds_exhausted:
  "\<not> rnd < maxRounds \<Longrightarrow> decision_rounds config env request decls m t rnd st = (None, st)"
  by (subst decision_rounds.simps) simp

lemma rounds_transport_error:
  "rnd < maxRounds \<Longrightarrow>
   sendChatWithTools config env (with_messages request (deref (heap st) m)) decls = Inl e \<Longrightarrow>
   decision_rounds config env request decls m t rnd st =
     (Some e, st\<lparr>calls := calls st @ [WithToolsCall (with_messages request (deref (heap st) m)) decls]\<rparr>)"
  by (subst decision_rounds.simps) (simp add: Let_def)

lemma rounds_no_choice:
  "rnd < maxRounds \<Longrightarrow>
   sendChatWithTools config env (with_messages request (deref (heap st) m)) decls = Inr response \<Longrightarrow>
   choices response = [] \<Longrightarrow>
   decision_rounds config env request decls m t rnd st =
     (Some (new_Error ''No response from model''),
      st\<lparr>calls := calls st @ [WithToolsCall (with_messages request (deref (heap st) m)) decls]\<rparr>)"
  by (subst decision_rounds.simps) (simp add: Let_def)

lemma rounds_final_answer:
  "rnd < maxRounds \<Longrightarrow>
   sendChatWithTools config env (with_messages request (deref (heap st) m)) decls = Inr response \<Longrightarrow>
   choices response = choice # others \<Longrightarrow> \<not> wants_tools choice \<Longrightarrow>
   decision_rounds config env request decls m t rnd st =
     (None, st\<lparr>calls := calls st @ [WithToolsCall (with_messages request (deref (heap st) m)) decls]\<rparr>)"
  by (subst decision_rounds.simps) (simp add: Let_def)

lemma rounds_tool_round:
  "rnd < maxRounds \<Longrightarrow>
   sendChatWithTools config env (with_messages request (deref (heap st) m)) decls = Inr response \<Longrightarrow>
   choices response = choice # others \<Longrightarrow> wants_tools choice \<Longrightarrow>
   execute_tool_calls env m t (requested_calls choice)
     (push t (assistantMsg (message choice)) (push m (assistantMsg (message choice)) (heap st))) = (r, h2) \<Longrightarrow>
   decision_rounds config env request decls m t rnd st =
     (case r of
        Some e \<Rightarrow>
          (Some e, \<lparr>heap = h2,
                    calls = calls st @ [WithToolsCall (with_messages request (deref (heap st) m)) decls]\<rparr>)
      | None \<Rightarrow>
          decision_rounds config env request decls m t (rnd + 1)
            \<lparr>heap = h2,
             calls = calls st @ [WithToolsCall (with_messages request (deref (heap st) m)) decls]\<rparr>)"
  by (subst decision_rounds.simps, cases st) (simp add: Let_def split: option.splits)


lemma tool_round_store:
  assumes mt: "m \<noteq> t"
    and ex: "execute_tool_calls env m t tcs (push t a (push m a h)) = (r, h2)"
  shows "r = snd (tool_results env tcs) \<and>
     deref h2 m = deref h m @ a # fst (tool_results env tcs) \<and>
     deref h2 t = deref h t @ a # fst (tool_results env tcs) \<and>
     (\<forall>b. b \<noteq> m \<longrightarrow> b \<noteq> t \<longrightarrow> deref h2 b = deref h b) \<and>
     next_free h2 = next_free h"
  using execute_tool_calls_effect [OF mt ex] mt
  by (simp add: deref_push next_free_push)

lemma decision_rounds_invariants:
  assumes mt: "m \<noteq> t"
  shows "decision_rounds config env request decls m t rnd st = (r, st') \<Longrightarrow>
     prefix (calls st) (calls st') \<and>
     length (calls st') \<le> length (calls st) + (maxRounds - rnd) \<and>
     (list_all is_decision (calls st) \<longrightarrow> list_all is_decision (calls st')) \<and>
     (\<forall>base. deref (heap st) m = base @ deref (heap st) t \<longrightarrow>
        deref (heap st') m = base @ deref (heap st') t) \<and>
     (\<forall>a. a \<noteq> m \<longrightarrow> a \<noteq> t \<longrightarrow> deref (heap st') a = deref (heap st) a) \<and>
     next_free (heap st') = next_free (heap st)"
proof (induction "maxRounds - rnd" arbitrary: rnd st)
  case 0
  then have "\<not> rnd < maxRounds" by simp
  with 0 show ?case by (simp add: rounds_exhausted)
next
  case (Suc n)
  then have lt: "rnd < maxRounds" by simp
  let ?sent = "with_messages request (deref (heap st) m)"
  let ?W = "WithToolsCall ?sent decls"
  let ?st1 = "st\<lparr>calls := calls st @ [?W]\<rparr>"
  have le1: "length (calls st) + 1 \<le> length (calls st) + (maxRounds - rnd)"
    using lt by simp
  show ?case
  proof (cases "sendChatWithTools config env ?sent decls")
    case (Inl e)
    from rounds_transport_error [OF lt Inl] Suc.prems have "st' = ?st1" by simp
    with le1 show ?thesis by simp
  next
    case (Inr response)
    show ?thesis
    proof (cases "choices response")
      case Nil
      from rounds_no_choice [OF lt Inr Nil] Suc.prems have "st' = ?st1" by simp
      with le1 show ?thesis by simp
    next
      case (Cons choice others)
      show ?thesis
      proof (cases "wants_tools choice")
        case False
        from rounds_final_answer [OF lt Inr Cons False] Suc.prems have "st' = ?st1" by simp
        with le1 show ?thesis by simp
      next
        case True
        let ?a = "assistantMsg (message choice)"
        obtain r2 h2 where ex:
          "execute_tool_calls env m t (requested_calls choice) (push t ?a (push m ?a (heap st))) = (r2, h2)"
          by (cases "execute_tool_calls env m t (requested_calls choice) (push t ?a (push m ?a (heap st)))")
        let ?st2 = "\<lparr>heap = h2, calls = calls st @ [?W]\<rparr>"
        note store = tool_round_store [OF mt ex]
        have rel: "\<forall>base. deref (heap st) m = base @ deref (heap st) t \<longrightarrow>
            deref h2 m = base @ deref h2 t"
          using store by simp
        note step = rounds_tool_round [OF lt Inr Cons True ex]
        show ?thesis
        proof (cases r2)
          case (Some e)
          with step Suc.prems have "st' = ?st2" by simp
          with le1 store rel show ?thesis by simp
        next
          case None
          with step Suc.prems have run:
            "decision_rounds config env request decls m t (rnd + 1) ?st2 = (r, st')" by simp
          have n: "n = maxRounds - (rnd + 1)" using Suc.hyps(2) by simp
          note ih = Suc.hyps(1) [OF n run]
          have p: "prefix (calls st) (calls st')"
            using ih by (auto elim: prefix_order.order_trans [rotated])
          have "length (calls st') \<le> length (calls ?st2) + (maxRounds - (rnd + 1))"
            using ih by blast
          moreover have "length (calls ?st2) = length (calls st) + 1" by simp
          ultimately have l: "length (calls st') \<le> length (calls st) + (maxRounds - rnd)"
            using lt by linarith
          from ih p l store rel show ?thesis by simp
        qed
      qed
    qed
  qed
qed


lemma tool_round:
  assumes mt: "m \<noteq> t" and lt: "rnd < maxRounds"
    and sent: "sendChatWithTools config env (with_messages request (deref (heap st) m)) decls = Inr response"
    and ch: "choices response = choice # others" and wt: "wants_tools choice"
    and tr: "tool_results env (requested_calls choice) = (tm, None)"
  shows "\<exists>st1.
     decision_rounds config env request decls m t rnd st =
       decision_rounds config env request decls m t (rnd + 1) st1 \<and>
     calls st1 = calls st @ [WithToolsCall (with_messages request (deref (heap st) m)) decls] \<and>
     deref (heap st1) m = deref (heap st) m @ assistantMsg (message choice) # tm \<and>
     deref (heap st1) t = deref (heap st) t @ assistantMsg (message choice) # tm \<and>
     (\<forall>b. b \<noteq> m \<longrightarrow> b \<noteq> t \<longrightarrow> deref (heap st1) b = deref (heap st) b)"
proof -
  let ?a = "assistantMsg (message choice)"
  obtain r2 h2 where ex:
    "execute_tool_calls env m t (requested_calls choice) (push t ?a (push m ?a (heap st))) = (r2, h2)"
    by (cases "execute_tool_calls env m t (requested_calls choice) (push t ?a (push m ?a (heap st)))")
  note store = tool_round_store [OF mt ex]
  have r2: "r2 = None" using store tr by simp
  let ?st1 = "\<lparr>heap = h2, calls = calls st @ [WithToolsCall (with_messages request (deref (heap st) m)) decls]\<rparr>"
  have "decision_rounds config env request decls m t rnd st =
       decision_rounds config env request decls m t (rnd + 1) ?st1"
    using rounds_tool_round [OF lt sent ch wt ex] r2 by simp
  moreover have "deref (heap ?st1) m = deref (heap st) m @ ?a # tm"
    "deref (heap ?st1) t = deref (heap st) t @ ?a # tm"
    "\<forall>b. b \<noteq> m \<longrightarrow> b \<noteq> t \<longrightarrow> deref (heap ?st1) b = deref (heap st) b"
    using store tr by simp_all
  ultimately show ?thesis by (intro exI [of _ ?st1]) simp
qed

lemma decision_loop_unfold:
  "decision_loop config env request decls h0 =
     (decision_rounds config env request decls (next_free h0) (Suc (next_free h0)) 0
        (initial_state request h0),
      next_free h0, Suc (next_free h0))"
  by (simp add: decision_loop_def alloc_def initial_state_def)

lemma initial_state_facts:
  "calls (initial_state request h0) = []"
  "deref (heap (initial_state request h0)) (next_free h0) = deref h0 (messages request)"
  "deref (heap (initial_state request h0)) (Suc (next_free h0)) = []"
  "a < next_free h0 \<Longrightarrow> deref (heap (initial_state request h0)) a = deref h0 a"
  by (simp_all add: initial_state_def deref_def)

lemma decision_loop_facts:
  assumes dl: "decision_loop config env request decls h0 = ((thrown, st), m, t)"
  shows "m = next_free h0 \<and> t = Suc (next_free h0) \<and>
     length (calls st) \<le> 3 \<and> list_all is_decision (calls st) \<and>
     deref (heap st) m = deref h0 (messages request) @ deref (heap st) t \<and>
     (\<forall>a. a < next_free h0 \<longrightarrow> deref (heap st) a = deref h0 a)"
proof -
  from dl have m: "m = next_free h0" and t: "t = Suc (next_free h0)"
    and run: "decision_rounds config env request decls (next_free h0) (Suc (next_free h0)) 0
        (initial_state request h0) = (thrown, st)"
    by (auto simp: decision_loop_unfold)
  have mt: "next_free h0 \<noteq> Suc (next_free h0)" by simp
  note inv = decision_rounds_invariants [OF mt run]
  have len: "length (calls st) \<le> 3"
    using inv by (simp add: initial_state_facts maxRounds_def)
  have dec: "list_all is_decision (calls st)"
    using inv by (simp add: initial_state_facts)
  have "deref (heap (initial_state request h0)) (next_free h0) =
      deref h0 (messages request) @ deref (heap (initial_state request h0)) (Suc (next_free h0))"
    by (simp add: initial_state_facts)
  with inv have acc: "deref (heap st) (next_free h0) =
      deref h0 (messages request) @ deref (heap st) (Suc (next_free h0))"
    by blast
  have fr: "\<forall>a. a < next_free h0 \<longrightarrow> deref (heap st) a = deref h0 a"
  proof (intro allI impI)
    fix a assume a: "a < next_free h0"
    then have "a \<noteq> next_free h0" "a \<noteq> Suc (next_free h0)" by simp_all
    with inv have "deref (heap st) a = deref (heap (initial_state request h0)) a" by blast
    with a show "deref (heap st) a = deref h0 a" by (simp add: initial_state_facts)
  qed
  from m t len dec acc fr show ?thesis by simp
qed

lemma runWithTools_after_loop:
  "decision_loop config env request decls h0 = ((None, st), m, t) \<Longrightarrow>
   runWithTools config env request decls h0 =
     (case sendChatStream config env (with_messages request (deref (heap st) m)) of
        Inl e \<Rightarrow> Inl e
      | Inr body \<Rightarrow> Inr (body, t),
      st\<lparr>calls := calls st @ [StreamCall (with_messages request (deref (heap st) m))]\<rparr>)"
  by (simp add: runWithTools_def Let_def split: sum.splits)

lemma runWithTools_loop_threw:
  "decision_loop config env request decls h0 = ((Some e, st), m, t) \<Longrightarrow>
   runWithTools config env request decls h0 = (Inl e, st)"
  by (simp add: runWithTools_def)

lemma stream_call_tools: "tools_carried env (StreamCall (with_messages request msgs)) = tools request"
  by (simp add: stream_request_body_def with_messages_def)

lemma not_wants_tools:
  "(finish_reason choice = ''tool_calls'' \<and>
      (tool_calls (message choice) = None \<or> tool_calls (message choice) = Some [])) \<or>
   finish_reason choice \<noteq> ''tool_calls'' \<Longrightarrow> \<not> wants_tools choice"
  by (auto simp: wants_tools_def has_tool_calls_def)

lemma run_after_rounds:
  assumes "decision_rounds config env request decls (next_free h0) (Suc (next_free h0)) 0
      (initial_state request h0) = (None, st)"
  shows "runWithTools config env request decls h0 =
     (case sendChatStream config env (with_messages request (deref (heap st) (next_free h0))) of
        Inl e \<Rightarrow> Inl e
      | Inr body \<Rightarrow> Inr (body, Suc (next_free h0)),
      st\<lparr>calls := calls st @ [StreamCall (with_messages request (deref (heap st) (next_free h0)))]\<rparr>)"
  using assms by (intro runWithTools_after_loop) (simp add: decision_loop_unfold)

lemma three_lt: "0 < maxRounds" "0 + 1 < maxRounds" "0 + 1 + 1 < maxRounds" "\<not> 0 + 1 + 1 + 1 < maxRounds"
  by (simp_all add: maxRounds_def)

text \<open>A model that answers the first decision call without asking for tools.\<close>

lemma run_answer_first:
  assumes s1: "sendChatWithTools config env (with_messages request (deref h0 (messages request))) decls = Inr r1"
    and c1: "choices r1 = c1 # o1" and w1: "\<not> wants_tools c1"
  shows "decision_rounds config env request decls (next_free h0) (Suc (next_free h0)) 0
      (initial_state request h0) =
     (None, (initial_state request h0)
        \<lparr>calls := [WithToolsCall (with_messages request (deref h0 (messages request))) decls]\<rparr>)"
proof -
  let ?st0 = "initial_state request h0"
  have s: "sendChatWithTools config env (with_messages request (deref (heap ?st0) (next_free h0))) decls = Inr r1"
    using s1 by (simp add: initial_state_facts)
  show ?thesis
    using rounds_final_answer [OF three_lt(1) s c1 w1] by (simp add: initial_state_facts)
qed


lemma tool_round_at:
  assumes mt: "m \<noteq> t" and lt: "rnd < maxRounds"
    and ms: "deref (heap st) m = msgs"
    and sent: "sendChatWithTools config env (with_messages request msgs) decls = Inr response"
    and ch: "choices response = choice # others" and wt: "wants_tools choice"
    and tr: "tool_results env (requested_calls choice) = (tm, None)"
  shows "\<exists>st1.
     decision_rounds config env request decls m t rnd st =
       decision_rounds config env request decls m t (rnd + 1) st1 \<and>
     calls st1 = calls st @ [WithToolsCall (with_messages request msgs) decls] \<and>
     deref (heap st1) m = msgs @ assistantMsg (message choice) # tm \<and>
     deref (heap st1) t = deref (heap st) t @ assistantMsg (message choice) # tm \<and>
     (\<forall>b. b \<noteq> m \<longrightarrow> b \<noteq> t \<longrightarrow> deref (heap st1) b = deref (heap st) b)"
  using tool_round [OF mt lt _ ch wt tr, of config request st decls] sent ms by simp

text \<open>Two rounds of tool calls, then an answer.\<close>

lemma run_two_tool_rounds:
  assumes s1: "sendChatWithTools config env (with_messages request (deref h0 (messages request))) decls = Inr r1"
    and c1: "choices r1 = c1 # o1" and w1: "wants_tools c1"
    and t1: "tool_results env (requested_calls c1) = (tm1, None)"
    and s2: "sendChatWithTools config env
        (with_messages request (deref h0 (messages request) @ assistantMsg (message c1) # tm1)) decls = Inr r2"
    and c2: "choices r2 = c2 # o2" and w2: "wants_tools c2"
    and t2: "tool_results env (requested_calls c2) = (tm2, None)"
    and s3: "sendChatWithTools config env
        (with_messages request (deref h0 (messages request) @ assistantMsg (message c1) # tm1 @
           assistantMsg (message c2) # tm2)) decls = Inr r3"
    and c3: "choices r3 = c3 # o3" and w3: "\<not> wants_tools c3"
  shows "\<exists>st.
     decision_rounds config env request decls (next_free h0) (Suc (next_free h0)) 0
       (initial_state request h0) = (None, st) \<and>
     calls st =
       [WithToolsCall (with_messages request (deref h0 (messages request))) decls,
        WithToolsCall (with_messages request
          (deref h0 (messages request) @ assistantMsg (message c1) # tm1)) decls,
        WithToolsCall (with_messages request
          (deref h0 (messages request) @ assistantMsg (message c1) # tm1 @
           assistantMsg (message c2) # tm2)) decls] \<and>
     deref (heap st) (next_free h0) =
       deref h0 (messages request) @ assistantMsg (message c1) # tm1 @ assistantMsg (message c2) # tm2 \<and>
     deref (heap st) (Suc (next_free h0)) =
       assistantMsg (message c1) # tm1 @ assistantMsg (message c2) # tm2"
proof -
  let ?m = "next_free h0" and ?t = "Suc (next_free h0)"
  let ?st0 = "initial_state request h0"
  let ?run = "decision_rounds config env request decls ?m ?t"
  have mt: "?m \<noteq> ?t" by simp
  obtain st1 where st1: "?run 0 ?st0 = ?run (0 + 1) st1"
    "calls st1 = calls ?st0 @ [WithToolsCall (with_messages request (deref h0 (messages request))) decls]"
    "deref (heap st1) ?m = deref h0 (messages request) @ assistantMsg (message c1) # tm1"
    "deref (heap st1) ?t = deref (heap ?st0) ?t @ assistantMsg (message c1) # tm1"
    using tool_round_at [OF mt three_lt(1) initial_state_facts(2) s1 c1 w1 t1] by blast
  obtain st2 where st2: "?run (0 + 1) st1 = ?run (0 + 1 + 1) st2"
    "calls st2 = calls st1 @ [WithToolsCall (with_messages request
        (deref h0 (messages request) @ assistantMsg (message c1) # tm1)) decls]"
    "deref (heap st2) ?m = (deref h0 (messages request) @ assistantMsg (message c1) # tm1) @
        assistantMsg (message c2) # tm2"
    "deref (heap st2) ?t = deref (heap st1) ?t @ assistantMsg (message c2) # tm2"
    using tool_round_at [OF mt three_lt(2) st1(3) s2 c2 w2 t2] by blast
  have s3': "sendChatWithTools config env (with_messages request (deref (heap st2) ?m)) decls = Inr r3"
    using s3 st2(3) by simp
  have "?run (0 + 1 + 1) st2 =
      (None, st2\<lparr>calls := calls st2 @ [WithToolsCall (with_messages request (deref (heap st2) ?m)) decls]\<rparr>)"
    by (rule rounds_final_answer [OF three_lt(3) s3' c3 w3])
  with st1 st2 show ?thesis
    by (intro exI [of _ "st2\<lparr>calls := calls st2 @
          [WithToolsCall (with_messages request (deref (heap st2) ?m)) decls]\<rparr>"])
       (simp add: initial_state_facts)
qed

text \<open>A model that asks for tools at every round.\<close>

lemma run_three_tool_rounds:
  assumes s: "\<forall>msgs. sendChatWithTools config env (with_messages request msgs) decls = Inr response"
    and c: "choices response = choice # others" and w: "wants_tools choice"
    and t: "tool_results env (requested_calls choice) = (tm, None)"
  shows "\<exists>st.
     decision_rounds config env request decls (next_free h0) (Suc (next_free h0)) 0
       (initial_state request h0) = (None, st) \<and>
     calls st =
       [WithToolsCall (with_messages request (deref h0 (messages request))) decls,
        WithToolsCall (with_messages request
          (deref h0 (messages request) @ assistantMsg (message choice) # tm)) decls,
        WithToolsCall (with_messages request
          (deref h0 (messages request) @ assistantMsg (message choice) # tm @
           assistantMsg (message choice) # tm)) decls] \<and>
     deref (heap st) (next_free h0) =
       deref h0 (messages request) @ assistantMsg (message choice) # tm @
       assistantMsg (message choice) # tm @ assistantMsg (message choice) # tm"
proof -
  let ?m = "next_free h0" and ?t = "Suc (next_free h0)"
  let ?st0 = "initial_state request h0"
  let ?run = "decision_rounds config env request decls ?m ?t"
  let ?rm = "assistantMsg (message choice) # tm"
  have mt: "?m \<noteq> ?t" by simp
  have sent: "sendChatWithTools config env (with_messages request msgs) decls = Inr response" for msgs
    using s by blast
  obtain st1 where st1: "?run 0 ?st0 = ?run (0 + 1) st1"
    "calls st1 = calls ?st0 @ [WithToolsCall (with_messages request (deref h0 (messages request))) decls]"
    "deref (heap st1) ?m = deref h0 (messages request) @ ?rm"
    using tool_round_at [OF mt three_lt(1) initial_state_facts(2) sent c w t] by blast
  obtain st2 where st2: "?run (0 + 1) st1 = ?run (0 + 1 + 1) st2"
    "calls st2 = calls st1 @ [WithToolsCall (with_messages request (deref h0 (messages request) @ ?rm)) decls]"
    "deref (heap st2) ?m = (deref h0 (messages request) @ ?rm) @ ?rm"
    using tool_round_at [OF mt three_lt(2) st1(3) sent c w t] by blast
  obtain st3 where st3: "?run (0 + 1 + 1) st2 = ?run (0 + 1 + 1 + 1) st3"
    "calls st3 = calls st2 @
       [WithToolsCall (with_messages request ((deref h0 (messages request) @ ?rm) @ ?rm)) decls]"
    "deref (heap st3) ?m = ((deref h0 (messages request) @ ?rm) @ ?rm) @ ?rm"
    using tool_round_at [OF mt three_lt(3) st2(3) sent c w t] by blast
  have "?run (0 + 1 + 1 + 1) st3 = (None, st3)"
    by (rule rounds_exhausted [OF three_lt(4)])
  with st1 st2 st3 show ?thesis
    by (intro exI [of _ st3]) (simp add: initial_state_facts)
qed

lemma runWithTools_calls:
  assumes "decision_rounds config env request decls (next_free h0) (Suc (next_free h0)) 0
      (initial_state request h0) = (None, st)"
  shows "calls (snd (runWithTools config env request decls h0)) =
     calls st @ [StreamCall (with_messages request (deref (heap st) (next_free h0)))]"
    and "heap (snd (runWithTools config env request decls h0)) = heap st"
  using run_after_rounds [OF assms] by simp_all

section \<open>The orchestrator's rounds\<close>

text \<open>
  Two rounds of tool calls that run without a throw, then an answer. The first two
  decision calls are answered with a request for tools,
  whose calls run without a throw and give the tool messages \<open>tm1\<close> and \<open>tm2\<close>, and the
  third is answered with a response that asks for no tool. Then the orchestrator makes
  exactly three decision calls and exactly one streaming call, and the message list of the
  streaming call is the original list, then the round-1 assistant message and its tool
  messages, then the round-2 assistant message and its tool messages. The tool messages
  carry the ids of their calls, in the calls' order.
\<close>

theorem two_tool_rounds_then_answer:
  assumes "sendChatWithTools config env (with_messages request (deref h0 (messages request))) decls = Inr r1"
    and "choices r1 = c1 # o1" and "wants_tools c1"
    and "tool_results env (requested_calls c1) = (tm1, None)"
    and "sendChatWithTools config env
        (with_messages request (deref h0 (messages request) @ assistantMsg (message c1) # tm1)) decls = Inr r2"
    and "choices r2 = c2 # o2" and "wants_tools c2"
    and "tool_results env (requested_calls c2) = (tm2, None)"
    and "sendChatWithTools config env
        (with_messages request (deref h0 (messages request) @ assistantMsg (message c1) # tm1 @
           assistantMsg (message c2) # tm2)) decls = Inr r3"
    and "choices r3 = c3 # o3" and "\<not> wants_tools c3"
  shows "calls (snd (runWithTools config env request decls h0)) =
       [WithToolsCall (with_messages request (deref h0 (messages request))) decls,
        WithToolsCall (with_messages request
          (deref h0 (messages request) @ assistantMsg (message c1) # tm1)) decls,
        WithToolsCall (with_messages request
          (deref h0 (messages request) @ assistantMsg (message c1) # tm1 @
           assistantMsg (message c2) # tm2)) decls,
        StreamCall (with_messages request
          (deref h0 (messages request) @ assistantMsg (message c1) # tm1 @
           assistantMsg (message c2) # tm2))] \<and>
     length (filter is_decision (calls (snd (runWithTools config env request decls h0)))) = 3 \<and>
     length (filter (\<lambda>c. \<not> is_decision c) (calls (snd (runWithTools config env request decls h0)))) = 1 \<and>
     map tool_call_id tm1 = map (\<lambda>tc. Some (tc_id tc)) (requested_calls c1) \<and>
     map tool_call_id tm2 = map (\<lambda>tc. Some (tc_id tc)) (requested_calls c2)"
proof -
  obtain st where st:
    "decision_rounds config env request decls (next_free h0) (Suc (next_free h0)) 0
       (initial_state request h0) = (None, st)"
    "calls st =
       [WithToolsCall (with_messages request (deref h0 (messages request))) decls,
        WithToolsCall (with_messages request
          (deref h0 (messages request) @ assistantMsg (message c1) # tm1)) decls,
        WithToolsCall (with_messages request
          (deref h0 (messages request) @ assistantMsg (message c1) # tm1 @
           assistantMsg (message c2) # tm2)) decls]"
    "deref (heap st) (next_free h0) =
       deref h0 (messages request) @ assistantMsg (message c1) # tm1 @ assistantMsg (message c2) # tm2"
    using run_two_tool_rounds [OF assms] by blast
  have cs: "calls (snd (runWithTools config env request decls h0)) =
       [WithToolsCall (with_messages request (deref h0 (messages request))) decls,
        WithToolsCall (with_messages request
          (deref h0 (messages request) @ assistantMsg (message c1) # tm1)) decls,
        WithToolsCall (with_messages request
          (deref h0 (messages request) @ assistantMsg (message c1) # tm1 @
           assistantMsg (message c2) # tm2)) decls,
        StreamCall (with_messages request
          (deref h0 (messages request) @ assistantMsg (message c1) # tm1 @
           assistantMsg (message c2) # tm2))]"
    using runWithTools_calls(1) [OF st(1)] st(2,3) by simp
  have i1: "map tool_call_id tm1 = map (\<lambda>tc. Some (tc_id tc)) (requested_calls c1)"
    using tool_results_shape [OF assms(4)] by blast
  have i2: "map tool_call_id tm2 = map (\<lambda>tc. Some (tc_id tc)) (requested_calls c2)"
    using tool_results_shape [OF assms(8)] by blast
  from cs i1 i2 show ?thesis by simp
qed

text \<open>
  The bound on the rounds, and the tools of the streaming call as a function of the
  caller's request. Whatever the transport answers, the orchestrator makes at most three decision calls
  and at most one streaming call. When the loop is left without a throw (a response asked
  for no tool, or the three rounds are used up) it makes exactly one streaming call, after
  the decision calls, with the accumulated list: the original messages followed by the
  synthesized ones. That call is given no tool declarations: its body carries the \<^verbatim>\<open>tools\<close>
  field of the caller's request and nothing else, so none for a request without that
  field. When the loop is left by a throw there is no streaming call. A model that asks for
  tools at every round gets three decision calls and then the streaming call.
\<close>

theorem bounded_rounds_single_finalization:
  "length (filter is_decision (calls (snd (runWithTools config env request decls h0)))) \<le> 3 \<and>
   length (filter (\<lambda>c. \<not> is_decision c) (calls (snd (runWithTools config env request decls h0)))) \<le> 1 \<and>
   (decision_loop config env request decls h0 = ((None, st), m, t) \<longrightarrow>
      calls (snd (runWithTools config env request decls h0)) =
        calls st @ [StreamCall (with_messages request (deref (heap st) m))] \<and>
      list_all is_decision (calls st) \<and>
      deref (heap st) m = deref h0 (messages request) @ deref (heap st) t \<and>
      tools_carried env (StreamCall (with_messages request (deref (heap st) m))) = tools request) \<and>
   (decision_loop config env request decls h0 = ((None, st), m, t) \<and> tools request = None \<longrightarrow>
      tools_carried env (last (calls (snd (runWithTools config env request decls h0)))) = None) \<and>
   (decision_loop config env request decls h0 = ((Some e, st), m, t) \<longrightarrow>
      runWithTools config env request decls h0 = (Inl e, st) \<and> list_all is_decision (calls st)) \<and>
   ((\<forall>msgs. sendChatWithTools config env (with_messages request msgs) decls = Inr response) \<and>
    choices response = choice # others \<and> wants_tools choice \<and>
    tool_results env (requested_calls choice) = (tm, None) \<longrightarrow>
      calls (snd (runWithTools config env request decls h0)) =
       [WithToolsCall (with_messages request (deref h0 (messages request))) decls,
        WithToolsCall (with_messages request
          (deref h0 (messages request) @ assistantMsg (message choice) # tm)) decls,
        WithToolsCall (with_messages request
          (deref h0 (messages request) @ assistantMsg (message choice) # tm @
           assistantMsg (message choice) # tm)) decls,
        StreamCall (with_messages request
          (deref h0 (messages request) @ assistantMsg (message choice) # tm @
           assistantMsg (message choice) # tm @ assistantMsg (message choice) # tm))])"
proof -
  obtain thrown st0 m0 t0 where dl: "decision_loop config env request decls h0 = ((thrown, st0), m0, t0)"
    by (metis prod.exhaust)
  note facts = decision_loop_facts [OF dl]
  have len: "length (filter is_decision (calls st0)) \<le> 3"
    using facts le_trans [OF length_filter_le] by blast
  have none: "filter (\<lambda>c. \<not> is_decision c) (calls st0) = []"
    using facts by (simp add: list_all_iff)
  have a: "length (filter is_decision (calls (snd (runWithTools config env request decls h0)))) \<le> 3 \<and>
      length (filter (\<lambda>c. \<not> is_decision c) (calls (snd (runWithTools config env request decls h0)))) \<le> 1"
  proof (cases thrown)
    case None
    with dl len none show ?thesis by (simp add: runWithTools_after_loop)
  next
    case (Some e)
    with dl len none show ?thesis by (simp add: runWithTools_loop_threw)
  qed
  have b: "decision_loop config env request decls h0 = ((None, st), m, t) \<longrightarrow>
      calls (snd (runWithTools config env request decls h0)) =
        calls st @ [StreamCall (with_messages request (deref (heap st) m))] \<and>
      list_all is_decision (calls st) \<and>
      deref (heap st) m = deref h0 (messages request) @ deref (heap st) t \<and>
      tools_carried env (StreamCall (with_messages request (deref (heap st) m))) = tools request"
  proof
    assume l: "decision_loop config env request decls h0 = ((None, st), m, t)"
    have p1: "calls (snd (runWithTools config env request decls h0)) =
        calls st @ [StreamCall (with_messages request (deref (heap st) m))]"
      by (simp add: runWithTools_after_loop [OF l])
    have p2: "list_all is_decision (calls st) \<and>
        deref (heap st) m = deref h0 (messages request) @ deref (heap st) t"
      using decision_loop_facts [OF l] by blast
    have p3: "tools_carried env (StreamCall (with_messages request (deref (heap st) m))) = tools request"
      by (rule stream_call_tools)
    from p1 p2 p3
    show "calls (snd (runWithTools config env request decls h0)) =
        calls st @ [StreamCall (with_messages request (deref (heap st) m))] \<and>
      list_all is_decision (calls st) \<and>
      deref (heap st) m = deref h0 (messages request) @ deref (heap st) t \<and>
      tools_carried env (StreamCall (with_messages request (deref (heap st) m))) = tools request"
      by blast
  qed
  have c: "decision_loop config env request decls h0 = ((None, st), m, t) \<and> tools request = None \<longrightarrow>
      tools_carried env (last (calls (snd (runWithTools config env request decls h0)))) = None"
  proof
    assume l: "decision_loop config env request decls h0 = ((None, st), m, t) \<and> tools request = None"
    then have "last (calls (snd (runWithTools config env request decls h0))) =
        StreamCall (with_messages request (deref (heap st) m))"
      by (simp add: runWithTools_after_loop)
    with l show "tools_carried env (last (calls (snd (runWithTools config env request decls h0)))) = None"
      by (simp only: stream_call_tools)
  qed
  have d: "decision_loop config env request decls h0 = ((Some e, st), m, t) \<longrightarrow>
      runWithTools config env request decls h0 = (Inl e, st) \<and> list_all is_decision (calls st)"
  proof
    assume l: "decision_loop config env request decls h0 = ((Some e, st), m, t)"
    from decision_loop_facts [OF l] runWithTools_loop_threw [OF l]
    show "runWithTools config env request decls h0 = (Inl e, st) \<and> list_all is_decision (calls st)"
      by simp
  qed
  have e: "(\<forall>msgs. sendChatWithTools config env (with_messages request msgs) decls = Inr response) \<and>
    choices response = choice # others \<and> wants_tools choice \<and>
    tool_results env (requested_calls choice) = (tm, None) \<longrightarrow>
      calls (snd (runWithTools config env request decls h0)) =
       [WithToolsCall (with_messages request (deref h0 (messages request))) decls,
        WithToolsCall (with_messages request
          (deref h0 (messages request) @ assistantMsg (message choice) # tm)) decls,
        WithToolsCall (with_messages request
          (deref h0 (messages request) @ assistantMsg (message choice) # tm @
           assistantMsg (message choice) # tm)) decls,
        StreamCall (with_messages request
          (deref h0 (messages request) @ assistantMsg (message choice) # tm @
           assistantMsg (message choice) # tm @ assistantMsg (message choice) # tm))]"
  proof
    assume h: "(\<forall>msgs. sendChatWithTools config env (with_messages request msgs) decls = Inr response) \<and>
      choices response = choice # others \<and> wants_tools choice \<and>
      tool_results env (requested_calls choice) = (tm, None)"
    then obtain st1 where st1:
      "decision_rounds config env request decls (next_free h0) (Suc (next_free h0)) 0
         (initial_state request h0) = (None, st1)"
      "calls st1 =
       [WithToolsCall (with_messages request (deref h0 (messages request))) decls,
        WithToolsCall (with_messages request
          (deref h0 (messages request) @ assistantMsg (message choice) # tm)) decls,
        WithToolsCall (with_messages request
          (deref h0 (messages request) @ assistantMsg (message choice) # tm @
           assistantMsg (message choice) # tm)) decls]"
      "deref (heap st1) (next_free h0) =
         deref h0 (messages request) @ assistantMsg (message choice) # tm @
         assistantMsg (message choice) # tm @ assistantMsg (message choice) # tm"
      using run_three_tool_rounds [of config env request decls response choice others tm h0] by blast
    show "calls (snd (runWithTools config env request decls h0)) =
       [WithToolsCall (with_messages request (deref h0 (messages request))) decls,
        WithToolsCall (with_messages request
          (deref h0 (messages request) @ assistantMsg (message choice) # tm)) decls,
        WithToolsCall (with_messages request
          (deref h0 (messages request) @ assistantMsg (message choice) # tm @
           assistantMsg (message choice) # tm)) decls,
        StreamCall (with_messages request
          (deref h0 (messages request) @ assistantMsg (message choice) # tm @
           assistantMsg (message choice) # tm @ assistantMsg (message choice) # tm))]"
      using runWithTools_calls(1) [OF st1(1)] st1(2,3) by simp
  qed
  from a b c d e show ?thesis by blast
qed

section \<open>The scripted scenarios\<close>

lemma scripted_decision:
  "sendChatWithTools cfg0 (env_script script) r decls =
     Inr (script (tools_request_body (env_script script) r decls))"
  by (simp add: sendChatWithTools_def env_script_def served_def resp_ok_def)

lemma scripted_stream:
  "sendChatStream cfg0 (env_script script) r =
     Inr [''data: '' @ payload_of ''Hi'' @ [CHR 0x0A, CHR 0x0A], ''data: [DONE]'' @ [CHR 0x0A, CHR 0x0A]]"
  by (simp add: sendChatStream_def env_script_def served_def resp_ok_def)

lemma body_length:
  "length (body_messages (tools_request_body env r decls)) = length (messages r)"
  by (simp add: tools_request_body_def prepareMessagesForApi_def)

lemma request0_facts:
  "with_messages request0 msgs = req_of msgs" "deref store0 (messages request0) = [hello]"
  "messages (req_of msgs) = msgs" "next_free store0 = 1" "tools request0 = None"
  by (simp_all add: with_messages_def request0_def req_of_def store0_def deref_def)

lemma asking_facts:
  "wants_tools (asking ''tool_calls'' args)"
  "requested_calls (asking reason args) =
     [\<lparr>tc_id = ''call_1'', tc_name = ''web_search'', tc_arguments = args\<rparr>]"
  "assistantMsg (message (asking reason query_args)) = asked"
  "choices (tool_request reason args) = [asking reason args]"
  by (simp_all add: wants_tools_def has_tool_calls_def asking_def requested_calls_def
      assistantMsg_def asked_def tool_request_def)

lemma answering_facts:
  "\<not> wants_tools (answering reason)" "choices (final_answer reason) = [answering reason]"
  by (simp_all add: wants_tools_def has_tool_calls_def answering_def text_msg_def final_answer_def)

lemma search_without_key:
  "executeTool (env_script script) \<lparr>tc_id = ''call_1'', tc_name = ''web_search'', tc_arguments = query_args\<rparr> =
     Inr ''Search error: No Brave Search API key configured''"
  by (simp add: executeTool_def env_script_def env0_def webSearch_def trim_def new_Error_def)

lemma search_results_failed:
  "tool_results (env_script script)
     [\<lparr>tc_id = ''call_1'', tc_name = ''web_search'', tc_arguments = query_args\<rparr>] =
     ([search_failed], None)"
  by (simp add: search_without_key toolMsg_def search_failed_def)


theorem two_tool_rounds_then_answer_witness:
  "calls (snd (runWithTools cfg0 (env_script tools_twice) request0 BUILT_IN_TOOLS store0)) =
     [WithToolsCall (req_of [hello]) BUILT_IN_TOOLS,
      WithToolsCall (req_of [hello, asked, search_failed]) BUILT_IN_TOOLS,
      WithToolsCall (req_of [hello, asked, search_failed, asked, search_failed]) BUILT_IN_TOOLS,
      StreamCall (req_of [hello, asked, search_failed, asked, search_failed])]"
proof -
  let ?E = "env_script tools_twice"
  let ?ask = "asking ''tool_calls'' query_args"
  have s1: "sendChatWithTools cfg0 ?E (with_messages request0 (deref store0 (messages request0)))
      BUILT_IN_TOOLS = Inr (tool_request ''tool_calls'' query_args)"
    by (simp add: scripted_decision request0_facts tools_twice_def body_length)
  have c: "choices (tool_request ''tool_calls'' query_args) = ?ask # []"
    by (simp add: asking_facts)
  have w: "wants_tools ?ask" by (rule asking_facts)
  have t: "tool_results ?E (requested_calls ?ask) = ([search_failed], None)"
    by (simp only: asking_facts search_results_failed)
  have s2: "sendChatWithTools cfg0 ?E
      (with_messages request0 (deref store0 (messages request0) @
         assistantMsg (message ?ask) # [search_failed])) BUILT_IN_TOOLS =
      Inr (tool_request ''tool_calls'' query_args)"
    by (simp add: scripted_decision request0_facts tools_twice_def body_length)
  have s3: "sendChatWithTools cfg0 ?E
      (with_messages request0 (deref store0 (messages request0) @
         assistantMsg (message ?ask) # [search_failed] @
         assistantMsg (message ?ask) # [search_failed])) BUILT_IN_TOOLS =
      Inr (final_answer ''stop'')"
    by (simp add: scripted_decision request0_facts tools_twice_def body_length)
  have c3: "choices (final_answer ''stop'') = answering ''stop'' # []"
    by (simp add: answering_facts)
  have w3: "\<not> wants_tools (answering ''stop'')" by (rule answering_facts)
  from two_tool_rounds_then_answer [OF s1 c w t s2 c w t s3 c3 w3]
  show ?thesis by (simp add: request0_facts asking_facts)
qed

theorem bounded_rounds_single_finalization_witness:
  "calls (snd (runWithTools cfg0 (env_script always_tools) request0 BUILT_IN_TOOLS store0)) =
     [WithToolsCall (req_of [hello]) BUILT_IN_TOOLS,
      WithToolsCall (req_of [hello, asked, search_failed]) BUILT_IN_TOOLS,
      WithToolsCall (req_of [hello, asked, search_failed, asked, search_failed]) BUILT_IN_TOOLS,
      StreamCall (req_of [hello, asked, search_failed, asked, search_failed, asked, search_failed])] \<and>
   calls (snd (runWithTools cfg0 (env_script (answer_at_once ''stop'')) request0 BUILT_IN_TOOLS store0)) =
     [WithToolsCall (req_of [hello]) BUILT_IN_TOOLS, StreamCall (req_of [hello])] \<and>
   tools_carried (env_script (answer_at_once ''stop''))
     (last (calls (snd (runWithTools cfg0 (env_script (answer_at_once ''stop'')) request0
        BUILT_IN_TOOLS store0)))) = None \<and>
   length (filter is_decision
     (calls (snd (runWithTools cfg0 (env_script always_tools) request0 BUILT_IN_TOOLS store0)))) \<le> 3"
proof -
  let ?E = "env_script always_tools"
  let ?A = "env_script (answer_at_once ''stop'')"
  let ?ask = "asking ''tool_calls'' query_args"
  have h: "(\<forall>msgs. sendChatWithTools cfg0 ?E (with_messages request0 msgs) BUILT_IN_TOOLS =
        Inr (tool_request ''tool_calls'' query_args)) \<and>
      choices (tool_request ''tool_calls'' query_args) = ?ask # [] \<and> wants_tools ?ask \<and>
      tool_results ?E (requested_calls ?ask) = ([search_failed], None)"
    by (simp add: scripted_decision always_tools_def asking_facts search_results_failed
        del: tool_results.simps)
  have a: "calls (snd (runWithTools cfg0 ?E request0 BUILT_IN_TOOLS store0)) =
     [WithToolsCall (req_of [hello]) BUILT_IN_TOOLS,
      WithToolsCall (req_of [hello, asked, search_failed]) BUILT_IN_TOOLS,
      WithToolsCall (req_of [hello, asked, search_failed, asked, search_failed]) BUILT_IN_TOOLS,
      StreamCall (req_of [hello, asked, search_failed, asked, search_failed, asked, search_failed])]"
    using bounded_rounds_single_finalization [where config = cfg0 and env = ?E and request = request0
        and decls = BUILT_IN_TOOLS and ?h0.0 = store0
        and response = "tool_request ''tool_calls'' query_args" and choice = ?ask and others = "[]"
        and tm = "[search_failed]"] h
    by (simp add: request0_facts asking_facts)
  have s1: "sendChatWithTools cfg0 ?A (with_messages request0 (deref store0 (messages request0)))
      BUILT_IN_TOOLS = Inr (final_answer ''stop'')"
    by (simp add: scripted_decision answer_at_once_def)
  have c3: "choices (final_answer ''stop'') = answering ''stop'' # []"
    by (simp add: answering_facts)
  let ?st = "(initial_state request0 store0)
      \<lparr>calls := [WithToolsCall (with_messages request0 (deref store0 (messages request0))) BUILT_IN_TOOLS]\<rparr>"
  have dl: "decision_loop cfg0 ?A request0 BUILT_IN_TOOLS store0 =
      ((None, ?st), next_free store0, Suc (next_free store0))"
    using run_answer_first [OF s1 c3 answering_facts(1)]
    by (simp add: decision_loop_unfold)
  note inst = bounded_rounds_single_finalization [where config = cfg0 and env = ?A and request = request0
        and decls = BUILT_IN_TOOLS and ?h0.0 = store0 and st = ?st and m = "next_free store0"
        and t = "Suc (next_free store0)"]
  have b: "calls (snd (runWithTools cfg0 ?A request0 BUILT_IN_TOOLS store0)) =
     [WithToolsCall (req_of [hello]) BUILT_IN_TOOLS, StreamCall (req_of [hello])]"
  proof -
    from inst dl have "calls (snd (runWithTools cfg0 ?A request0 BUILT_IN_TOOLS store0)) =
        calls ?st @ [StreamCall (with_messages request0 (deref (heap ?st) (next_free store0)))]"
      by blast
    then show ?thesis
      by (simp add: initial_state_facts request0_facts(1,2,3))
  qed
  have c: "tools_carried ?A (last (calls (snd (runWithTools cfg0 ?A request0 BUILT_IN_TOOLS store0)))) = None"
    using inst dl request0_facts(5) by blast
  have d: "length (filter is_decision
     (calls (snd (runWithTools cfg0 ?E request0 BUILT_IN_TOOLS store0)))) \<le> 3"
    using bounded_rounds_single_finalization [where config = cfg0 and env = ?E and request = request0
        and decls = BUILT_IN_TOOLS and ?h0.0 = store0] by blast
  from a b c d show ?thesis by blast
qed

section \<open>Responses that ask for no tool\<close>

text \<open>
  C10. A decision response whose finish reason is "tool_calls" but whose message has no
  tool-call records (the list is absent or empty), or whose finish reason is anything
  else, whatever records it carries, ends the loop at that round: no tool is executed and
  no message is appended (the state changes by the one decision call only). Wherever in a
  run such a response arrives, the run ends with that decision call followed by the one
  streaming call, on the messages accumulated up to that round, in a store that round did
  not change.
\<close>

theorem no_tool_calls_no_execution:
  "(rnd < maxRounds \<and>
    sendChatWithTools config env (with_messages request (deref (heap st) m)) decls = Inr response \<and>
    choices response = choice # others \<and>
    ((finish_reason choice = ''tool_calls'' \<and>
        (tool_calls (message choice) = None \<or> tool_calls (message choice) = Some [])) \<or>
     finish_reason choice \<noteq> ''tool_calls'') \<longrightarrow>
      decision_rounds config env request decls m t rnd st =
        (None, st\<lparr>calls := calls st @
           [WithToolsCall (with_messages request (deref (heap st) m)) decls]\<rparr>)) \<and>
   (decision_rounds config env request decls (next_free h0) (Suc (next_free h0)) 0
      (initial_state request h0) =
    decision_rounds config env request decls (next_free h0) (Suc (next_free h0)) rnd' st' \<and>
    rnd' < maxRounds \<and>
    sendChatWithTools config env (with_messages request (deref (heap st') (next_free h0))) decls =
      Inr response' \<and>
    choices response' = choice' # others' \<and>
    ((finish_reason choice' = ''tool_calls'' \<and>
        (tool_calls (message choice') = None \<or> tool_calls (message choice') = Some [])) \<or>
     finish_reason choice' \<noteq> ''tool_calls'') \<longrightarrow>
      calls (snd (runWithTools config env request decls h0)) =
        calls st' @
        [WithToolsCall (with_messages request (deref (heap st') (next_free h0))) decls,
         StreamCall (with_messages request (deref (heap st') (next_free h0)))] \<and>
      heap (snd (runWithTools config env request decls h0)) = heap st')"
proof (intro conjI impI)
  assume a: "rnd < maxRounds \<and>
    sendChatWithTools config env (with_messages request (deref (heap st) m)) decls = Inr response \<and>
    choices response = choice # others \<and>
    ((finish_reason choice = ''tool_calls'' \<and>
        (tool_calls (message choice) = None \<or> tool_calls (message choice) = Some [])) \<or>
     finish_reason choice \<noteq> ''tool_calls'')"
  then have "\<not> wants_tools choice" by (intro not_wants_tools) blast
  with a show "decision_rounds config env request decls m t rnd st =
        (None, st\<lparr>calls := calls st @
           [WithToolsCall (with_messages request (deref (heap st) m)) decls]\<rparr>)"
    by (intro rounds_final_answer) blast+
next
  assume a: "decision_rounds config env request decls (next_free h0) (Suc (next_free h0)) 0
      (initial_state request h0) =
    decision_rounds config env request decls (next_free h0) (Suc (next_free h0)) rnd' st' \<and>
    rnd' < maxRounds \<and>
    sendChatWithTools config env (with_messages request (deref (heap st') (next_free h0))) decls =
      Inr response' \<and>
    choices response' = choice' # others' \<and>
    ((finish_reason choice' = ''tool_calls'' \<and>
        (tool_calls (message choice') = None \<or> tool_calls (message choice') = Some [])) \<or>
     finish_reason choice' \<noteq> ''tool_calls'')"
  then have nw: "\<not> wants_tools choice'" by (intro not_wants_tools) blast
  let ?W = "WithToolsCall (with_messages request (deref (heap st') (next_free h0))) decls"
  have "decision_rounds config env request decls (next_free h0) (Suc (next_free h0)) rnd' st' =
      (None, st'\<lparr>calls := calls st' @ [?W]\<rparr>)"
    using a nw by (intro rounds_final_answer) blast+
  with a have run: "decision_rounds config env request decls (next_free h0) (Suc (next_free h0)) 0
      (initial_state request h0) = (None, st'\<lparr>calls := calls st' @ [?W]\<rparr>)"
    by simp
  show "calls (snd (runWithTools config env request decls h0)) =
        calls st' @ [?W, StreamCall (with_messages request (deref (heap st') (next_free h0)))]"
    using runWithTools_calls(1) [OF run] by simp
  show "heap (snd (runWithTools config env request decls h0)) = heap st'"
    using runWithTools_calls(2) [OF run] by simp
qed


lemma choice_facts:
  "finish_reason (answering reason) = reason" "tool_calls (message (answering reason)) = None"
  "finish_reason (asking reason args) = reason"
  by (simp_all add: answering_def asking_def text_msg_def)

theorem no_tool_calls_no_execution_witness:
  "calls (snd (runWithTools cfg0 (env_script (answer_at_once ''tool_calls'')) request0 BUILT_IN_TOOLS store0)) =
     [WithToolsCall (req_of [hello]) BUILT_IN_TOOLS, StreamCall (req_of [hello])] \<and>
   calls (snd (runWithTools cfg0 (env_script tools_then_stop) request0 BUILT_IN_TOOLS store0)) =
     [WithToolsCall (req_of [hello]) BUILT_IN_TOOLS,
      WithToolsCall (req_of [hello, asked, search_failed]) BUILT_IN_TOOLS,
      StreamCall (req_of [hello, asked, search_failed])]"
proof -
  let ?A = "env_script (answer_at_once ''tool_calls'')"
  let ?E = "env_script tools_then_stop"
  let ?m = "next_free store0" and ?t = "Suc (next_free store0)"
  let ?st0 = "initial_state request0 store0"
  have h1: "decision_rounds cfg0 ?A request0 BUILT_IN_TOOLS ?m ?t 0 ?st0 =
      decision_rounds cfg0 ?A request0 BUILT_IN_TOOLS ?m ?t 0 ?st0 \<and>
    0 < maxRounds \<and>
    sendChatWithTools cfg0 ?A (with_messages request0 (deref (heap ?st0) ?m)) BUILT_IN_TOOLS =
      Inr (final_answer ''tool_calls'') \<and>
    choices (final_answer ''tool_calls'') = answering ''tool_calls'' # [] \<and>
    ((finish_reason (answering ''tool_calls'') = ''tool_calls'' \<and>
        (tool_calls (message (answering ''tool_calls'')) = None \<or>
         tool_calls (message (answering ''tool_calls'')) = Some [])) \<or>
     finish_reason (answering ''tool_calls'') \<noteq> ''tool_calls'')"
    by (simp add: three_lt scripted_decision answer_at_once_def answering_facts choice_facts)
  have a: "calls (snd (runWithTools cfg0 ?A request0 BUILT_IN_TOOLS store0)) =
     [WithToolsCall (req_of [hello]) BUILT_IN_TOOLS, StreamCall (req_of [hello])]"
  proof -
    from no_tool_calls_no_execution [where config = cfg0 and env = ?A and request = request0
        and decls = BUILT_IN_TOOLS and ?h0.0 = store0 and rnd' = 0 and st' = ?st0
        and response' = "final_answer ''tool_calls''" and choice' = "answering ''tool_calls''"
        and others' = "[]"] h1
    have "calls (snd (runWithTools cfg0 ?A request0 BUILT_IN_TOOLS store0)) =
        calls ?st0 @
        [WithToolsCall (with_messages request0 (deref (heap ?st0) ?m)) BUILT_IN_TOOLS,
         StreamCall (with_messages request0 (deref (heap ?st0) ?m))]"
      by blast
    then show ?thesis by (simp add: initial_state_facts request0_facts(1,2,3))
  qed
  have mt: "?m \<noteq> ?t" by simp
  have s1: "sendChatWithTools cfg0 ?E (with_messages request0 (deref store0 (messages request0)))
      BUILT_IN_TOOLS = Inr (tool_request ''tool_calls'' query_args)"
    by (simp add: scripted_decision request0_facts(1,2,3) tools_then_stop_def body_length)
  have c1: "choices (tool_request ''tool_calls'' query_args) = asking ''tool_calls'' query_args # []"
    by (simp add: asking_facts)
  have t1: "tool_results ?E (requested_calls (asking ''tool_calls'' query_args)) = ([search_failed], None)"
    by (simp only: asking_facts search_results_failed)
  obtain st1 where st1:
    "decision_rounds cfg0 ?E request0 BUILT_IN_TOOLS ?m ?t 0 ?st0 =
       decision_rounds cfg0 ?E request0 BUILT_IN_TOOLS ?m ?t (0 + 1) st1"
    "calls st1 = calls ?st0 @
       [WithToolsCall (with_messages request0 (deref store0 (messages request0))) BUILT_IN_TOOLS]"
    "deref (heap st1) ?m = deref store0 (messages request0) @
       assistantMsg (message (asking ''tool_calls'' query_args)) # [search_failed]"
    using tool_round_at [OF mt three_lt(1) initial_state_facts(2) s1 c1 asking_facts(1) t1] by blast
  have m1: "deref (heap st1) ?m = [hello, asked, search_failed]"
    using st1(3) by (simp add: request0_facts(1,2,3) asking_facts)
  have h2: "decision_rounds cfg0 ?E request0 BUILT_IN_TOOLS ?m ?t 0 ?st0 =
      decision_rounds cfg0 ?E request0 BUILT_IN_TOOLS ?m ?t (0 + 1) st1 \<and>
    0 + 1 < maxRounds \<and>
    sendChatWithTools cfg0 ?E (with_messages request0 (deref (heap st1) ?m)) BUILT_IN_TOOLS =
      Inr (tool_request ''stop'' query_args) \<and>
    choices (tool_request ''stop'' query_args) = asking ''stop'' query_args # [] \<and>
    ((finish_reason (asking ''stop'' query_args) = ''tool_calls'' \<and>
        (tool_calls (message (asking ''stop'' query_args)) = None \<or>
         tool_calls (message (asking ''stop'' query_args)) = Some [])) \<or>
     finish_reason (asking ''stop'' query_args) \<noteq> ''tool_calls'')"
    using st1(1)
    by (simp add: maxRounds_def m1 scripted_decision request0_facts(1,2,3) tools_then_stop_def body_length
        asking_facts choice_facts)
  have b: "calls (snd (runWithTools cfg0 ?E request0 BUILT_IN_TOOLS store0)) =
     [WithToolsCall (req_of [hello]) BUILT_IN_TOOLS,
      WithToolsCall (req_of [hello, asked, search_failed]) BUILT_IN_TOOLS,
      StreamCall (req_of [hello, asked, search_failed])]"
  proof -
    from no_tool_calls_no_execution [where config = cfg0 and env = ?E and request = request0
        and decls = BUILT_IN_TOOLS and ?h0.0 = store0 and rnd' = "0 + 1" and st' = st1
        and response' = "tool_request ''stop'' query_args" and choice' = "asking ''stop'' query_args"
        and others' = "[]"] h2
    have "calls (snd (runWithTools cfg0 ?E request0 BUILT_IN_TOOLS store0)) =
        calls st1 @
        [WithToolsCall (with_messages request0 (deref (heap st1) ?m)) BUILT_IN_TOOLS,
         StreamCall (with_messages request0 (deref (heap st1) ?m))]"
      by blast
    then show ?thesis
      by (simp add: st1(2) m1 initial_state_facts request0_facts(1,2,3))
  qed
  from a b show ?thesis by blast
qed


section \<open>The caller's message list\<close>

lemma tools_twice_run:
  "\<exists>st.
     decision_rounds cfg0 (env_script tools_twice) request0 BUILT_IN_TOOLS (next_free store0)
       (Suc (next_free store0)) 0 (initial_state request0 store0) = (None, st) \<and>
     deref (heap st) (next_free store0) = [hello, asked, search_failed, asked, search_failed] \<and>
     deref (heap st) (Suc (next_free store0)) = [asked, search_failed, asked, search_failed] \<and>
     deref (heap st) (messages request0) = [hello]"
proof -
  let ?E = "env_script tools_twice"
  let ?ask = "asking ''tool_calls'' query_args"
  have s1: "sendChatWithTools cfg0 ?E (with_messages request0 (deref store0 (messages request0)))
      BUILT_IN_TOOLS = Inr (tool_request ''tool_calls'' query_args)"
    by (simp add: scripted_decision request0_facts tools_twice_def body_length)
  have c: "choices (tool_request ''tool_calls'' query_args) = ?ask # []"
    by (simp add: asking_facts)
  have w: "wants_tools ?ask" by (rule asking_facts)
  have t: "tool_results ?E (requested_calls ?ask) = ([search_failed], None)"
    by (simp only: asking_facts search_results_failed)
  have s2: "sendChatWithTools cfg0 ?E
      (with_messages request0 (deref store0 (messages request0) @
         assistantMsg (message ?ask) # [search_failed])) BUILT_IN_TOOLS =
      Inr (tool_request ''tool_calls'' query_args)"
    by (simp add: scripted_decision request0_facts tools_twice_def body_length)
  have s3: "sendChatWithTools cfg0 ?E
      (with_messages request0 (deref store0 (messages request0) @
         assistantMsg (message ?ask) # [search_failed] @
         assistantMsg (message ?ask) # [search_failed])) BUILT_IN_TOOLS =
      Inr (final_answer ''stop'')"
    by (simp add: scripted_decision request0_facts tools_twice_def body_length)
  have c3: "choices (final_answer ''stop'') = answering ''stop'' # []"
    by (simp add: answering_facts)
  have w3: "\<not> wants_tools (answering ''stop'')" by (rule answering_facts)
  obtain st where st:
    "decision_rounds cfg0 ?E request0 BUILT_IN_TOOLS (next_free store0) (Suc (next_free store0)) 0
       (initial_state request0 store0) = (None, st)"
    "deref (heap st) (next_free store0) =
       deref store0 (messages request0) @ assistantMsg (message ?ask) # [search_failed] @
       assistantMsg (message ?ask) # [search_failed]"
    "deref (heap st) (Suc (next_free store0)) =
       assistantMsg (message ?ask) # [search_failed] @ assistantMsg (message ?ask) # [search_failed]"
    using run_two_tool_rounds [OF s1 c w t s2 c w t s3 c3 w3] by blast
  have dl: "decision_loop cfg0 ?E request0 BUILT_IN_TOOLS store0 =
      ((None, st), next_free store0, Suc (next_free store0))"
    using st(1) by (simp add: decision_loop_unfold)
  have lt: "messages request0 < next_free store0"
    by (simp add: request0_def req_of_def store0_def)
  have "deref (heap st) (messages request0) = deref store0 (messages request0)"
    using decision_loop_facts [OF dl] lt by blast
  with st show ?thesis
    by (intro exI [of _ st]) (simp add: request0_facts(1,2,3) asking_facts)
qed

text \<open>
  C9, as stated, fails: after a turn with two rounds of tool calls the array the caller
  passed in still holds the original message alone; the four synthesized messages are in
  the array the function returns.
\<close>

theorem caller_list_not_mutated_counterexample:
  "fst (runWithTools cfg0 (env_script tools_twice) request0 BUILT_IN_TOOLS store0) =
     Inr ([''data: '' @ payload_of ''Hi'' @ [CHR 0x0A, CHR 0x0A], ''data: [DONE]'' @ [CHR 0x0A, CHR 0x0A]],
          Suc (next_free store0)) \<and>
   deref (heap (snd (runWithTools cfg0 (env_script tools_twice) request0 BUILT_IN_TOOLS store0)))
     (Suc (next_free store0)) = [asked, search_failed, asked, search_failed] \<and>
   deref store0 (messages request0) = [hello] \<and>
   deref (heap (snd (runWithTools cfg0 (env_script tools_twice) request0 BUILT_IN_TOOLS store0)))
     (messages request0) = [hello] \<and>
   deref (heap (snd (runWithTools cfg0 (env_script tools_twice) request0 BUILT_IN_TOOLS store0)))
     (messages request0) \<noteq> [hello] @ [asked, search_failed, asked, search_failed]"
proof -
  obtain st where st:
    "decision_rounds cfg0 (env_script tools_twice) request0 BUILT_IN_TOOLS (next_free store0)
       (Suc (next_free store0)) 0 (initial_state request0 store0) = (None, st)"
    "deref (heap st) (Suc (next_free store0)) = [asked, search_failed, asked, search_failed]"
    "deref (heap st) (messages request0) = [hello]"
    using tools_twice_run by blast
  note run = run_after_rounds [OF st(1)]
  from run st(2,3) show ?thesis
    by (simp add: scripted_stream request0_facts(2))
qed

text \<open>
  C9, amended. The orchestrator works on a copy of the caller's message list: every array
  that existed before the call, the caller's list among them, has the same contents after
  the turn, however it ends. The synthesized assistant and tool messages are appended to
  the copy and to a second new array; when the turn completes that array is handed back,
  and the list sent in the streaming call is the original messages followed by its
  contents.
\<close>

theorem caller_list_unchanged:
  "(\<forall>a. a < next_free h0 \<longrightarrow>
      deref (heap (snd (runWithTools config env request decls h0))) a = deref h0 a) \<and>
   (messages request < next_free h0 \<longrightarrow>
      deref (heap (snd (runWithTools config env request decls h0))) (messages request) =
        deref h0 (messages request)) \<and>
   (runWithTools config env request decls h0 = (Inr (body, t), st') \<longrightarrow>
      t = Suc (next_free h0) \<and>
      last (calls st') =
        StreamCall (with_messages request (deref h0 (messages request) @ deref (heap st') t)))"
proof -
  obtain thrown st m0 t0 where dl: "decision_loop config env request decls h0 = ((thrown, st), m0, t0)"
    by (metis prod.exhaust)
  note facts = decision_loop_facts [OF dl]
  have hp: "heap (snd (runWithTools config env request decls h0)) = heap st"
  proof (cases thrown)
    case None
    with dl show ?thesis by (simp add: runWithTools_after_loop)
  next
    case (Some e)
    with dl show ?thesis by (simp add: runWithTools_loop_threw)
  qed
  have a: "\<forall>a. a < next_free h0 \<longrightarrow>
      deref (heap (snd (runWithTools config env request decls h0))) a = deref h0 a"
    using facts hp by simp
  have c: "runWithTools config env request decls h0 = (Inr (body, t), st') \<longrightarrow>
      t = Suc (next_free h0) \<and>
      last (calls st') =
        StreamCall (with_messages request (deref h0 (messages request) @ deref (heap st') t))"
  proof
    assume r: "runWithTools config env request decls h0 = (Inr (body, t), st')"
    show "t = Suc (next_free h0) \<and>
      last (calls st') =
        StreamCall (with_messages request (deref h0 (messages request) @ deref (heap st') t))"
    proof (cases thrown)
      case (Some e)
      with dl r show ?thesis by (simp add: runWithTools_loop_threw)
    next
      case None
      with dl have dl': "decision_loop config env request decls h0 = ((None, st), m0, t0)" by simp
      from r runWithTools_after_loop [OF dl']
      have t: "t = t0" and s: "st' = st\<lparr>calls := calls st @
          [StreamCall (with_messages request (deref (heap st) m0))]\<rparr>"
        by (auto split: sum.splits)
      from facts have "t0 = Suc (next_free h0)"
        and "deref (heap st) m0 = deref h0 (messages request) @ deref (heap st) t0"
        by blast+
      with t s show ?thesis by simp
    qed
  qed
  from a c show ?thesis by blast
qed

theorem caller_list_unchanged_witness:
  "deref (heap (snd (runWithTools cfg0 (env_script tools_twice) request0 BUILT_IN_TOOLS store0)))
     (messages request0) = [hello] \<and>
   last (calls (snd (runWithTools cfg0 (env_script tools_twice) request0 BUILT_IN_TOOLS store0))) =
     StreamCall (req_of ([hello] @ [asked, search_failed, asked, search_failed]))"
proof -
  let ?E = "env_script tools_twice"
  let ?stream = "[''data: '' @ payload_of ''Hi'' @ [CHR 0x0A, CHR 0x0A], ''data: [DONE]'' @ [CHR 0x0A, CHR 0x0A]]"
  obtain st where st:
    "decision_rounds cfg0 ?E request0 BUILT_IN_TOOLS (next_free store0)
       (Suc (next_free store0)) 0 (initial_state request0 store0) = (None, st)"
    "deref (heap st) (Suc (next_free store0)) = [asked, search_failed, asked, search_failed]"
    using tools_twice_run by blast
  note run = run_after_rounds [OF st(1)]
  let ?st' = "snd (runWithTools cfg0 ?E request0 BUILT_IN_TOOLS store0)"
  have r: "runWithTools cfg0 ?E request0 BUILT_IN_TOOLS store0 = (Inr (?stream, Suc (next_free store0)), ?st')"
    using run by (simp add: scripted_stream)
  have syn: "deref (heap ?st') (Suc (next_free store0)) = [asked, search_failed, asked, search_failed]"
    using run st(2) by simp
  have lt: "messages request0 < next_free store0"
    by (simp add: request0_def req_of_def store0_def)
  note inst = caller_list_unchanged [where config = cfg0 and env = ?E and request = request0
      and decls = BUILT_IN_TOOLS and ?h0.0 = store0 and body = ?stream
      and t = "Suc (next_free store0)" and st' = ?st']
  have a: "deref (heap ?st') (messages request0) = [hello]"
    using inst lt by (simp add: request0_facts(2))
  have "last (calls ?st') =
      StreamCall (with_messages request0 (deref store0 (messages request0) @
        deref (heap ?st') (Suc (next_free store0))))"
    using inst r by blast
  then have b: "last (calls ?st') =
      StreamCall (req_of ([hello] @ [asked, search_failed, asked, search_failed]))"
    by (simp add: syn request0_facts(1,2,3))
  from a b show ?thesis by blast
qed

section \<open>A tool call whose arguments are null\<close>

lemma null_arguments_throw:
  "executeTool (env_script script) \<lparr>tc_id = ''call_1'', tc_name = ''web_search'', tc_arguments = ''null''\<rparr> =
     Inl (null_property_error ''query'')"
  by (simp add: executeTool_def env_script_def query_args_def)

text \<open>
  C6 at the input where the code departs from it: a call of \<^verbatim>\<open>web_search\<close> whose
  arguments are the JSON text \<^verbatim>\<open>null\<close>. The arguments parse, to \<^verbatim>\<open>null\<close>; reading
  \<^verbatim>\<open>args.query\<close> throws a \<^verbatim>\<open>TypeError\<close> outside every \<^verbatim>\<open>try\<close>; the throw leaves
  \<^verbatim>\<open>executeTool\<close> and \<^verbatim>\<open>runWithTools\<close>: no tool message is produced and no streaming
  call is made.
\<close>

theorem null_arguments_abort_turn:
  "executeTool (env_script null_args)
     \<lparr>tc_id = ''call_1'', tc_name = ''web_search'', tc_arguments = ''null''\<rparr> =
     Inl (null_property_error ''query'') \<and>
   fst (runWithTools cfg0 (env_script null_args) request0 BUILT_IN_TOOLS store0) =
     Inl (null_property_error ''query'') \<and>
   calls (snd (runWithTools cfg0 (env_script null_args) request0 BUILT_IN_TOOLS store0)) =
     [WithToolsCall (req_of [hello]) BUILT_IN_TOOLS]"
proof -
  let ?E = "env_script null_args"
  let ?m = "next_free store0" and ?t = "Suc (next_free store0)"
  let ?st0 = "initial_state request0 store0"
  let ?ask = "asking ''tool_calls'' ''null''"
  let ?a = "assistantMsg (message ?ask)"
  let ?h1 = "push ?t ?a (push ?m ?a (heap ?st0))"
  have s1: "sendChatWithTools cfg0 ?E (with_messages request0 (deref (heap ?st0) ?m)) BUILT_IN_TOOLS =
      Inr (tool_request ''tool_calls'' ''null'')"
    by (simp add: scripted_decision null_args_def)
  have c: "choices (tool_request ''tool_calls'' ''null'') = ?ask # []"
    by (simp add: asking_facts)
  have w: "wants_tools ?ask" by (rule asking_facts)
  have ex: "execute_tool_calls ?E ?m ?t (requested_calls ?ask) ?h1 =
      (Some (null_property_error ''query''), ?h1)"
    by (simp add: asking_facts(2) null_arguments_throw)
  have "decision_rounds cfg0 ?E request0 BUILT_IN_TOOLS ?m ?t 0 ?st0 =
      (Some (null_property_error ''query''),
       \<lparr>heap = ?h1,
        calls = calls ?st0 @ [WithToolsCall (with_messages request0 (deref (heap ?st0) ?m)) BUILT_IN_TOOLS]\<rparr>)"
    using rounds_tool_round [OF three_lt(1) s1 c w ex] by simp
  then have dl: "decision_loop cfg0 ?E request0 BUILT_IN_TOOLS store0 =
      ((Some (null_property_error ''query''),
        \<lparr>heap = ?h1,
         calls = calls ?st0 @ [WithToolsCall (with_messages request0 (deref (heap ?st0) ?m)) BUILT_IN_TOOLS]\<rparr>),
       ?m, ?t)"
    by (simp add: decision_loop_unfold)
  from runWithTools_loop_threw [OF dl] null_arguments_throw [of null_args]
  show ?thesis
    by (simp add: initial_state_facts request0_facts(1,2,3))
qed

section \<open>A request that carries tool declarations\<close>





section \<open>A scripted run whose first tool call has null arguments\<close>

lemma null_first_round:
  assumes a: "script (tools_request_body (env_script script) (req_of [hello]) BUILT_IN_TOOLS) =
      tool_request ''tool_calls'' ''null''"
  shows "fst (runWithTools cfg0 (env_script script) request0 BUILT_IN_TOOLS store0) =
      Inl (null_property_error ''query'')"
    and "calls (snd (runWithTools cfg0 (env_script script) request0 BUILT_IN_TOOLS store0)) =
      [WithToolsCall (req_of [hello]) BUILT_IN_TOOLS]"
proof -
  let ?E = "env_script script"
  let ?m = "next_free store0" and ?t = "Suc (next_free store0)"
  let ?st0 = "initial_state request0 store0"
  let ?ask = "asking ''tool_calls'' ''null''"
  let ?a = "assistantMsg (message ?ask)"
  let ?h1 = "push ?t ?a (push ?m ?a (heap ?st0))"
  have r: "with_messages request0 (deref (heap ?st0) ?m) = req_of [hello]"
    by (simp add: initial_state_facts request0_facts(1,2,3))
  have s1: "sendChatWithTools cfg0 ?E (with_messages request0 (deref (heap ?st0) ?m)) BUILT_IN_TOOLS =
      Inr (tool_request ''tool_calls'' ''null'')"
    unfolding r scripted_decision using a by simp
  have c: "choices (tool_request ''tool_calls'' ''null'') = ?ask # []"
    by (simp add: asking_facts)
  have w: "wants_tools ?ask" by (rule asking_facts)
  have ex: "execute_tool_calls ?E ?m ?t (requested_calls ?ask) ?h1 =
      (Some (null_property_error ''query''), ?h1)"
    by (simp add: asking_facts(2) null_arguments_throw)
  have "decision_rounds cfg0 ?E request0 BUILT_IN_TOOLS ?m ?t 0 ?st0 =
      (Some (null_property_error ''query''),
       \<lparr>heap = ?h1,
        calls = calls ?st0 @ [WithToolsCall (with_messages request0 (deref (heap ?st0) ?m)) BUILT_IN_TOOLS]\<rparr>)"
    using rounds_tool_round [OF three_lt(1) s1 c w ex] by simp
  then have dl: "decision_loop cfg0 ?E request0 BUILT_IN_TOOLS store0 =
      ((Some (null_property_error ''query''),
        \<lparr>heap = ?h1,
         calls = calls ?st0 @ [WithToolsCall (with_messages request0 (deref (heap ?st0) ?m)) BUILT_IN_TOOLS]\<rparr>),
       ?m, ?t)"
    by (simp add: decision_loop_unfold)
  from runWithTools_loop_threw [OF dl]
  show "fst (runWithTools cfg0 ?E request0 BUILT_IN_TOOLS store0) = Inl (null_property_error ''query'')"
    and "calls (snd (runWithTools cfg0 ?E request0 BUILT_IN_TOOLS store0)) =
      [WithToolsCall (req_of [hello]) BUILT_IN_TOOLS]"
    by (simp_all add: initial_state_facts request0_facts(1,2,3))
qed

text \<open>
  C3 at an input where the code departs from it. The script asks for tools at rounds 1
  and 2 and answers at round 3: it answers a decision call with one message with a call
  of \<^verbatim>\<open>web_search\<close> whose arguments are the JSON text \<^verbatim>\<open>null\<close>, one with three messages
  with a call with a query, one with five messages with an answer. The orchestrator makes
  one decision call and no streaming call: the tool call of round 1 throws, and the throw
  leaves \<^verbatim>\<open>runWithTools\<close>.
\<close>

theorem null_arguments_end_scripted_run:
  "null_then_tools (tools_request_body env (req_of [m1]) decls) =
     tool_request ''tool_calls'' ''null'' \<and>
   null_then_tools (tools_request_body env (req_of [m1, m2, m3]) decls) =
     tool_request ''tool_calls'' query_args \<and>
   null_then_tools (tools_request_body env (req_of [m1, m2, m3, m4, m5]) decls) =
     final_answer ''stop'' \<and>
   wants_tools (asking ''tool_calls'' ''null'') \<and>
   wants_tools (asking ''tool_calls'' query_args) \<and>
   \<not> wants_tools (answering ''stop'') \<and>
   fst (runWithTools cfg0 (env_script null_then_tools) request0 BUILT_IN_TOOLS store0) =
     Inl (null_property_error ''query'') \<and>
   calls (snd (runWithTools cfg0 (env_script null_then_tools) request0 BUILT_IN_TOOLS store0)) =
     [WithToolsCall (req_of [hello]) BUILT_IN_TOOLS]"
proof -
  have len: "length (body_messages (tools_request_body e (req_of ms) d)) = length ms" for e ms d
    by (simp add: body_length request0_facts(3))
  have a: "null_then_tools (tools_request_body (env_script null_then_tools) (req_of [hello]) BUILT_IN_TOOLS) =
      tool_request ''tool_calls'' ''null''"
    by (simp add: null_then_tools_def len)
  have w3: "\<not> wants_tools (answering ''stop'')"
    by (simp add: wants_tools_def has_tool_calls_def answering_def text_msg_def)
  show ?thesis
    using null_first_round [where script = null_then_tools, OF a] asking_facts(1) w3
    by (simp add: null_then_tools_def len)
qed

end
